theory Spec2Isabelle
  imports Complex_Main "HOL-Library.Word"
begin

section \<open>Link cost subsystem of the NLSR fork: data model\<close>

text \<open>
  The development follows \<^verbatim>\<open>link-cost-manager.cpp\<close> (LinkCostManager) and
  \<^verbatim>\<open>ml-adaptive-calculator.cpp\<close> (MLAdaptiveCalculator). C++ \<^verbatim>\<open>double\<close> values are
  modelled as real numbers (rounding error, infinities and NaN are not represented; the two
  divisions whose divisor can be zero are written out with their IEEE outcome). Time points
  and durations of \<^verbatim>\<open>steady_clock\<close> are integer tick counts in nanoseconds. Every handler
  runs to completion on the event loop, so each one reads the clock once: the value is the
  parameter \<open>now\<close>.
\<close>

type_synonym name = string
type_synonym time_point = int
type_synonym duration = int
type_synonym seqno = "32 word"

definition nanos_per_ms :: int where
  "nanos_per_ms = 1000000"

definition milliseconds :: "int \<Rightarrow> duration" where
  "milliseconds n = n * nanos_per_ms"

definition seconds :: "int \<Rightarrow> duration" where
  "seconds n = n * 1000 * nanos_per_ms"

definition minutes :: "int \<Rightarrow> duration" where
  "minutes n = seconds (60 * n)"

text \<open>C++ integer division truncates towards zero.\<close>

definition trunc_div :: "int \<Rightarrow> int \<Rightarrow> int" where
  "trunc_div a b = sgn a * sgn b * (\<bar>a\<bar> div \<bar>b\<bar>)"

text \<open>\<^verbatim>\<open>duration_cast<milliseconds>(d).count()\<close>\<close>

definition duration_cast_ms :: "duration \<Rightarrow> int" where
  "duration_cast_ms d = trunc_div d nanos_per_ms"

text \<open>\<^verbatim>\<open>std::round\<close>: to the nearest integer, halves away from zero.\<close>

definition std_round :: "real \<Rightarrow> real" where
  "std_round x = (if 0 \<le> x then of_int \<lfloor>x + 1 / 2\<rfloor> else - of_int \<lfloor>- x + 1 / 2\<rfloor>)"

text \<open>
  Modelled from the spec: \<^verbatim>\<open>Adjacent::Status\<close> is declared in the absent
  \<^verbatim>\<open>adjacent.hpp\<close>; the spec gives the two-state variant.
\<close>

datatype Status = STATUS_INACTIVE | STATUS_ACTIVE

text \<open>
  Modelled from the spec: the entry of the host's adjacency list (\<^verbatim>\<open>adjacent.hpp\<close> is
  absent). The subsystem reads the name, status, configured cost and hello timeout count, and
  reads and writes the link-cost slot.
\<close>

record Adjacent =
  a_status :: Status
  a_originalLinkCost :: nat
  a_linkCost :: real
  a_interestTimedOutNo :: nat

definition getLinkCost :: "Adjacent \<Rightarrow> real" where
  "getLinkCost a = a_linkCost a"

definition setLinkCost :: "real \<Rightarrow> Adjacent \<Rightarrow> Adjacent" where
  "setLinkCost c a = a\<lparr>a_linkCost := c\<rparr>"

record RttMeasurement =
  rtt :: duration
  timestamp :: time_point

text \<open>
  Modelled from the spec: \<^verbatim>\<open>OutgoingLinkState\<close> with its inline members
  \<^verbatim>\<open>isStable\<close>, \<^verbatim>\<open>addRttMeasurement\<close> and \<^verbatim>\<open>getAverageRtt\<close> is declared in the absent
  \<^verbatim>\<open>link-cost-manager.hpp\<close>. The fields are the ones the source file reads and writes;
  \<open>original_cost\<close> is the spec's u64, the history is the spec's bounded FIFO of samples
  (oldest first), the stability predicate is \<open>status = ACTIVE \<and> timeout_count = 0\<close>, and the
  average is the mean of the stored durations.
\<close>

record OutgoingLinkState =
  status :: Status
  originalCost :: nat
  currentCost :: real
  rttHistory :: "RttMeasurement list"
  timeoutCount :: nat
  lastSuccess :: time_point
  lastLsaTriggerTime :: time_point

definition isStable :: "OutgoingLinkState \<Rightarrow> bool" where
  "isStable ls = (status ls = STATUS_ACTIVE \<and> timeoutCount ls = 0)"

definition addRttMeasurement :: "nat \<Rightarrow> duration \<Rightarrow> time_point \<Rightarrow> OutgoingLinkState \<Rightarrow> OutgoingLinkState" where
  "addRttMeasurement capacity d now ls =
     (let h = rttHistory ls @ [\<lparr>rtt = d, timestamp = now\<rparr>]
      in ls\<lparr>rttHistory := (if capacity < length h then tl h else h)\<rparr>)"

definition getAverageRtt :: "OutgoingLinkState \<Rightarrow> duration" where
  "getAverageRtt ls =
     (if rttHistory ls = [] then 0
      else trunc_div (sum_list (map rtt (rttHistory ls))) (int (length (rttHistory ls))))"

text \<open>The snapshot handed to a registered calculator (\<^verbatim>\<open>LinkCostManager::LinkMetrics\<close>).\<close>

record LinkMetrics =
  lm_neighbor :: name
  lm_originalCost :: nat
  lm_currentCost :: real
  lm_timeoutCount :: nat
  lm_lastSuccessTime :: time_point
  lm_status :: Status
  lm_rttHistory :: "duration list"
  lm_currentRtt :: "duration option"

text \<open>
  A registered calculator is a \<^verbatim>\<open>std::function\<close>; a call returns a cost, throws a
  \<^verbatim>\<open>std::exception\<close> (or an object of a class derived from it: \<open>Threw\<close>), or throws an
  object of any other type (\<open>ThrewOther\<close>).
\<close>

datatype CalcOutcome = Returned real | Threw | ThrewOther

type_synonym LoadAwareCostCalculator = "name \<Rightarrow> real \<Rightarrow> LinkMetrics \<Rightarrow> CalcOutcome"

text \<open>Tasks handed to the scheduler, and requests sent to the LSDB (newest first).\<close>

datatype Task = WarmupDone | StatusReportTick | MeasurementDue name

datatype BuildRequest = CostUpdateBuild name time_point | StopBuild

text \<open>
  Boot-time configuration read by the manager: the hello retry limit of \<^verbatim>\<open>ConfParameter\<close>
  and the manager's own constants, whose declarations are in the absent header.
\<close>

record Config =
  interestRetryNumber :: nat
  maxCostMultiplier :: real
  costChangeThreshold :: real
  measurementInterval :: duration
  rttHistoryCapacity :: nat

text \<open>
  The manager. The maps are \<^verbatim>\<open>std::map\<close>/\<^verbatim>\<open>unordered_map\<close> members; the scheduler holds,
  for every task, the times at which it is due; \<open>lsdbAdjLsaBuilds\<close>,
  \<open>routingTableCalculations\<close> and \<open>mlFeedbackSent\<close> record the calls made on the LSDB, the
  routing table and the feedback subscriber; \<open>escapedExceptions\<close> counts the exceptions that
  left a handler uncaught, towards the event loop.
\<close>

record LinkCostManager =
  m_outgoingLinks :: "name \<rightharpoonup> OutgoingLinkState"
  m_adjacencyList :: "name \<rightharpoonup> Adjacent"
  m_pendingMeasurements :: "seqno \<rightharpoonup> name \<times> time_point"
  m_scheduler :: "Task \<Rightarrow> time_point list"
  m_isActive :: bool
  m_nextSequenceNumber :: seqno
  m_totalMeasurements :: nat
  m_successfulMeasurements :: nat
  m_costUpdates :: nat
  m_loadAwareCostCalculator :: "LoadAwareCostCalculator option"
  m_mlFeedbackCallback :: bool
  lsdbAdjLsaBuilds :: "BuildRequest list"
  routingTableCalculations :: nat
  mlFeedbackSent :: "(name \<times> real) list"
  escapedExceptions :: nat

section \<open>LinkCostManager: lifecycle and hello events\<close>

definition initialize :: "time_point \<Rightarrow> LinkCostManager \<Rightarrow> LinkCostManager" where
  "initialize now s =
     s\<lparr>m_outgoingLinks := (\<lambda>n. case m_adjacencyList s n of
          None \<Rightarrow> m_outgoingLinks s n
        | Some adjacent \<Rightarrow> Some \<lparr>status = a_status adjacent,
            originalCost = a_originalLinkCost adjacent,
            currentCost = getLinkCost adjacent,
            rttHistory = [],
            timeoutCount = a_interestTimedOutNo adjacent,
            lastSuccess = now,
            lastLsaTriggerTime = 0\<rparr>)\<rparr>"

definition start :: "time_point \<Rightarrow> LinkCostManager \<Rightarrow> LinkCostManager" where
  "start now s =
     (if m_isActive s then s
      else s\<lparr>m_isActive := True,
             m_scheduler := (m_scheduler s)(WarmupDone := m_scheduler s WarmupDone @ [now + seconds 30])\<rparr>)"

definition restoreOriginalCost :: "LinkCostManager \<Rightarrow> name \<Rightarrow> Adjacent option" where
  "restoreOriginalCost s n =
     (case m_outgoingLinks s n of
        None \<Rightarrow> m_adjacencyList s n
      | Some ls \<Rightarrow>
          (case m_adjacencyList s n of
             None \<Rightarrow> None
           | Some adjacent \<Rightarrow>
               if getLinkCost adjacent \<noteq> real (originalCost ls)
               then Some (setLinkCost (real (originalCost ls)) adjacent)
               else Some adjacent))"

definition stop :: "LinkCostManager \<Rightarrow> LinkCostManager" where
  "stop s =
     (if \<not> m_isActive s then s
      else s\<lparr>m_isActive := False,
             m_scheduler := (\<lambda>_. []),
             m_pendingMeasurements := Map.empty,
             m_adjacencyList := restoreOriginalCost s,
             lsdbAdjLsaBuilds := StopBuild # lsdbAdjLsaBuilds s\<rparr>)"

text \<open>
  \<^verbatim>\<open>calculateSafeMeasurementTime\<close> and \<^verbatim>\<open>scheduleRttMeasurement\<close>; \<open>rnd\<close> is the word drawn
  from \<^verbatim>\<open>ndn::random::generateWord32\<close>.
\<close>

definition calculateSafeMeasurementTime :: "Config \<Rightarrow> time_point \<Rightarrow> seqno \<Rightarrow> time_point" where
  "calculateSafeMeasurementTime cfg now rnd =
     now + measurementInterval cfg + milliseconds (int (unat rnd mod 5000))"

definition scheduleRttMeasurement :: "Config \<Rightarrow> time_point \<Rightarrow> seqno \<Rightarrow> name \<Rightarrow> LinkCostManager \<Rightarrow> LinkCostManager" where
  "scheduleRttMeasurement cfg now rnd neighbor s =
     (if \<not> m_isActive s then s
      else
        let delay0 = calculateSafeMeasurementTime cfg now rnd - now;
            delay = (if delay0 \<le> 0 then seconds 1 else delay0)
        in s\<lparr>m_scheduler := (m_scheduler s)(MeasurementDue neighbor :=
                m_scheduler s (MeasurementDue neighbor) @ [now + delay])\<rparr>)"

definition onHelloInterestSent :: "name \<Rightarrow> LinkCostManager \<Rightarrow> LinkCostManager" where
  "onHelloInterestSent neighbor s = s"

definition onHelloDataReceived :: "Config \<Rightarrow> time_point \<Rightarrow> seqno \<Rightarrow> name \<Rightarrow> LinkCostManager \<Rightarrow> LinkCostManager" where
  "onHelloDataReceived cfg now rnd neighbor s =
     (case m_outgoingLinks s neighbor of
        None \<Rightarrow> s
      | Some ls0 \<Rightarrow>
          let linkState = ls0\<lparr>status := STATUS_ACTIVE, timeoutCount := 0, lastSuccess := now\<rparr>;
              s1 = s\<lparr>m_outgoingLinks := (m_outgoingLinks s)(neighbor \<mapsto> linkState)\<rparr>
          in if m_isActive s1 \<and> isStable linkState \<and> rttHistory linkState = []
             then scheduleRttMeasurement cfg now rnd neighbor s1
             else s1)"

definition onHelloTimeout :: "Config \<Rightarrow> name \<Rightarrow> nat \<Rightarrow> LinkCostManager \<Rightarrow> LinkCostManager" where
  "onHelloTimeout cfg neighbor timeouts s =
     (case m_outgoingLinks s neighbor of
        None \<Rightarrow> s
      | Some ls0 \<Rightarrow>
          let ls1 = ls0\<lparr>timeoutCount := timeouts\<rparr>;
              linkState = (if interestRetryNumber cfg \<le> timeouts
                           then ls1\<lparr>status := STATUS_INACTIVE, rttHistory := []\<rparr>
                           else ls1)
          in s\<lparr>m_outgoingLinks := (m_outgoingLinks s)(neighbor \<mapsto> linkState)\<rparr>)"

text \<open>The erase loop of \<^verbatim>\<open>onNeighborStatusChanged\<close> over the pending-measurement map.\<close>

definition erasePendingOf :: "name \<Rightarrow> (seqno \<rightharpoonup> name \<times> time_point) \<Rightarrow> (seqno \<rightharpoonup> name \<times> time_point)" where
  "erasePendingOf neighbor pending =
     (\<lambda>q. case pending q of
        None \<Rightarrow> None
      | Some e \<Rightarrow> if fst e = neighbor then None else Some e)"

definition onNeighborStatusChanged :: "Config \<Rightarrow> time_point \<Rightarrow> seqno \<Rightarrow> name \<Rightarrow> Status \<Rightarrow> LinkCostManager \<Rightarrow> LinkCostManager" where
  "onNeighborStatusChanged cfg now rnd neighbor newStatus s =
     (case m_outgoingLinks s neighbor of
        None \<Rightarrow> s
      | Some ls0 \<Rightarrow>
          let oldStatus = status ls0;
              ls1 = ls0\<lparr>status := newStatus\<rparr>
          in if newStatus = STATUS_INACTIVE then
               s\<lparr>m_outgoingLinks := (m_outgoingLinks s)(neighbor \<mapsto>
                    ls1\<lparr>rttHistory := [], timeoutCount := interestRetryNumber cfg\<rparr>),
                 m_pendingMeasurements := erasePendingOf neighbor (m_pendingMeasurements s)\<rparr>
             else if newStatus = STATUS_ACTIVE \<and> oldStatus \<noteq> STATUS_ACTIVE then
               let restored = (case m_adjacencyList s neighbor of
                       None \<Rightarrow> (m_adjacencyList s, ls1)
                     | Some adjacent \<Rightarrow>
                         ((m_adjacencyList s)(neighbor \<mapsto>
                             setLinkCost (real (a_originalLinkCost adjacent)) adjacent),
                          ls1\<lparr>currentCost := real (a_originalLinkCost adjacent)\<rparr>));
                   ls2 = (snd restored)\<lparr>timeoutCount := 0, lastSuccess := now\<rparr>;
                   s1 = s\<lparr>m_outgoingLinks := (m_outgoingLinks s)(neighbor \<mapsto> ls2),
                          m_adjacencyList := fst restored\<rparr>
               in if m_isActive s1 then scheduleRttMeasurement cfg now rnd neighbor s1 else s1
             else s\<lparr>m_outgoingLinks := (m_outgoingLinks s)(neighbor \<mapsto> ls1)\<rparr>)"

section \<open>LinkCostManager: probes and the cost engine\<close>

definition canMeasureNow :: "name \<Rightarrow> LinkCostManager \<Rightarrow> bool" where
  "canMeasureNow neighbor s =
     (case m_outgoingLinks s neighbor of
        None \<Rightarrow> False
      | Some ls \<Rightarrow> m_isActive s \<and> isStable ls)"

definition performRttMeasurement :: "time_point \<Rightarrow> name \<Rightarrow> LinkCostManager \<Rightarrow> LinkCostManager" where
  "performRttMeasurement now neighbor s =
     (let seq = m_nextSequenceNumber s
      in s\<lparr>m_nextSequenceNumber := seq + 1,
            m_pendingMeasurements := (m_pendingMeasurements s)(seq \<mapsto> (neighbor, now)),
            m_totalMeasurements := m_totalMeasurements s + 1\<rparr>)"

definition getLinkMetrics :: "name \<Rightarrow> LinkCostManager \<Rightarrow> LinkMetrics option" where
  "getLinkMetrics neighbor s =
     (case m_outgoingLinks s neighbor of
        None \<Rightarrow> None
      | Some linkState \<Rightarrow>
          Some \<lparr>lm_neighbor = neighbor,
                lm_originalCost = originalCost linkState,
                lm_currentCost = currentCost linkState,
                lm_timeoutCount = timeoutCount linkState,
                lm_lastSuccessTime = lastSuccess linkState,
                lm_status = status linkState,
                lm_rttHistory = map rtt (rttHistory linkState),
                lm_currentRtt = (if map rtt (rttHistory linkState) \<noteq> []
                                 then Some (getAverageRtt linkState) else None)\<rparr>)"

text \<open>\<^verbatim>\<open>calculateNewCost\<close>; the value \<open>-1\<close> says that the neighbor does not take part.\<close>

definition calculateNewCost :: "Config \<Rightarrow> name \<Rightarrow> LinkCostManager \<Rightarrow> real" where
  "calculateNewCost cfg neighbor s =
     (case m_outgoingLinks s neighbor of
        None \<Rightarrow> - 1
      | Some linkState \<Rightarrow>
          if status linkState = STATUS_INACTIVE then - 1
          else if rttHistory linkState = [] then real (originalCost linkState)
          else
            let avgRtt = getAverageRtt linkState;
                avgRttMs = duration_cast_ms avgRtt;
                rttFactor = ln (1 + real_of_int avgRttMs / 100);
                newCost = real (originalCost linkState) * (1 + rttFactor)
            in std_round (min newCost (real (originalCost linkState) * maxCostMultiplier cfg)))"

text \<open>
  \<^verbatim>\<open>shouldUpdateCost\<close>. With a current cost of zero the quotient of the source is an
  infinity (the comparison holds) or, when the new cost is zero too, a NaN (it does not).
\<close>

definition shouldUpdateCost :: "Config \<Rightarrow> name \<Rightarrow> real \<Rightarrow> LinkCostManager \<Rightarrow> bool" where
  "shouldUpdateCost cfg neighbor newCost s =
     (case m_outgoingLinks s neighbor of
        None \<Rightarrow> False
      | Some linkState \<Rightarrow>
          if currentCost linkState = 0 then newCost \<noteq> 0
          else costChangeThreshold cfg \<le> \<bar>newCost - currentCost linkState\<bar> / currentCost linkState)"

text \<open>
  The delegation block of \<^verbatim>\<open>updateNeighborCost\<close>: a registered calculator rewrites the
  candidate; the handler \<^verbatim>\<open>catch (const std::exception&)\<close> keeps the candidate when the
  calculator throws a \<^verbatim>\<open>std::exception\<close>. A thrown object of another type is not caught:
  the result is \<open>None\<close> and the exception leaves \<^verbatim>\<open>updateNeighborCost\<close>.
\<close>

definition delegateCost :: "name \<Rightarrow> real \<Rightarrow> LinkCostManager \<Rightarrow> real option" where
  "delegateCost neighbor rttBasedCost s =
     (case m_loadAwareCostCalculator s of
        None \<Rightarrow> Some rttBasedCost
      | Some calculator \<Rightarrow>
          (case getLinkMetrics neighbor s of
             None \<Rightarrow> Some rttBasedCost
           | Some metrics \<Rightarrow>
               (case calculator neighbor rttBasedCost metrics of
                  Returned finalCost \<Rightarrow> Some finalCost
                | Threw \<Rightarrow> Some rttBasedCost
                | ThrewOther \<Rightarrow> None)))"

text \<open>
  The inner change gate \<^verbatim>\<open>std::abs(finalCost - oldCost) / oldCost < 0.05\<close>; with an old cost
  of zero the quotient is an infinity or a NaN and the comparison fails.
\<close>

definition changeTooSmall :: "real \<Rightarrow> real \<Rightarrow> bool" where
  "changeTooSmall finalCost oldCost =
     (if oldCost = 0 then False else \<bar>finalCost - oldCost\<bar> / oldCost < 5 / 100)"

definition MIN_LSA_INTERVAL :: duration where
  "MIN_LSA_INTERVAL = seconds 10"

definition updateNeighborCost :: "time_point \<Rightarrow> name \<Rightarrow> real \<Rightarrow> LinkCostManager \<Rightarrow> LinkCostManager" where
  "updateNeighborCost now neighbor rttBasedCost s =
     (case m_adjacencyList s neighbor of
        None \<Rightarrow> s
      | Some adjacent \<Rightarrow>
          (case m_outgoingLinks s neighbor of
             None \<Rightarrow> s
           | Some linkState \<Rightarrow>
               if status linkState = STATUS_INACTIVE then s
               else
                 (case delegateCost neighbor rttBasedCost s of
                    None \<Rightarrow> s\<lparr>escapedExceptions := escapedExceptions s + 1\<rparr>
                  | Some finalCost \<Rightarrow>
                      let oldCost = getLinkCost adjacent
                      in if changeTooSmall finalCost oldCost then s
                         else if now - lastLsaTriggerTime linkState < MIN_LSA_INTERVAL then
                           s\<lparr>m_adjacencyList := (m_adjacencyList s)(neighbor \<mapsto> setLinkCost finalCost adjacent),
                             m_outgoingLinks := (m_outgoingLinks s)(neighbor \<mapsto>
                                linkState\<lparr>currentCost := finalCost\<rparr>)\<rparr>
                         else
                           let s1 = s\<lparr>m_adjacencyList := (m_adjacencyList s)(neighbor \<mapsto> setLinkCost finalCost adjacent),
                                      m_outgoingLinks := (m_outgoingLinks s)(neighbor \<mapsto>
                                         linkState\<lparr>currentCost := finalCost, lastLsaTriggerTime := now\<rparr>)\<rparr>;
                               s2 = (if timeoutCount linkState = 0
                                     then s1\<lparr>lsdbAdjLsaBuilds := CostUpdateBuild neighbor now # lsdbAdjLsaBuilds s1,
                                             routingTableCalculations := routingTableCalculations s1 + 1\<rparr>
                                     else s1)
                           in s2\<lparr>m_costUpdates := m_costUpdates s2 + 1\<rparr>)))"

section \<open>LinkCostManager: feedback publisher\<close>

text \<open>
  Modelled from the spec: the thresholds and weights of the performance score are constants
  of the absent header; the spec gives the break points 10, 50, 100 and 200 ms, the weights
  0.4/0.2/0.3/0.1 and the minimum of three samples.
\<close>

definition RTT_EXCELLENT_THRESHOLD :: real where "RTT_EXCELLENT_THRESHOLD = 10"
definition RTT_GOOD_THRESHOLD :: real where "RTT_GOOD_THRESHOLD = 50"
definition RTT_FAIR_THRESHOLD :: real where "RTT_FAIR_THRESHOLD = 100"
definition RTT_POOR_THRESHOLD :: real where "RTT_POOR_THRESHOLD = 200"
definition RTT_WEIGHT :: real where "RTT_WEIGHT = 4 / 10"
definition STABILITY_WEIGHT :: real where "STABILITY_WEIGHT = 2 / 10"
definition RELIABILITY_WEIGHT :: real where "RELIABILITY_WEIGHT = 3 / 10"
definition TREND_WEIGHT :: real where "TREND_WEIGHT = 1 / 10"
definition MIN_SAMPLES_FOR_ML_FEEDBACK :: nat where "MIN_SAMPLES_FOR_ML_FEEDBACK = 3"

definition calculateRttPerformanceScore :: "real \<Rightarrow> real" where
  "calculateRttPerformanceScore rttMs =
     (if rttMs \<le> RTT_EXCELLENT_THRESHOLD then 0
      else if rttMs \<le> RTT_GOOD_THRESHOLD then
        (rttMs - RTT_EXCELLENT_THRESHOLD) / (RTT_GOOD_THRESHOLD - RTT_EXCELLENT_THRESHOLD) * (3 / 10)
      else if rttMs \<le> RTT_FAIR_THRESHOLD then
        3 / 10 + (rttMs - RTT_GOOD_THRESHOLD) / (RTT_FAIR_THRESHOLD - RTT_GOOD_THRESHOLD) * (3 / 10)
      else if rttMs \<le> RTT_POOR_THRESHOLD then
        6 / 10 + (rttMs - RTT_FAIR_THRESHOLD) / (RTT_POOR_THRESHOLD - RTT_FAIR_THRESHOLD) * (3 / 10)
      else 9 / 10 + min (1 / 10) ((rttMs - RTT_POOR_THRESHOLD) / 800 * (1 / 10)))"

definition historyMs :: "OutgoingLinkState \<Rightarrow> real list" where
  "historyMs ls = map (\<lambda>m. real_of_int (duration_cast_ms (rtt m))) (rttHistory ls)"

definition calculateStabilityPerformanceScore :: "name \<Rightarrow> LinkCostManager \<Rightarrow> real" where
  "calculateStabilityPerformanceScore neighbor s =
     (case m_outgoingLinks s neighbor of
        None \<Rightarrow> 1 / 2
      | Some ls \<Rightarrow>
          if length (rttHistory ls) < 3 then 1 / 2
          else
            let sampleCount = min (length (rttHistory ls)) 5;
                window = drop (length (rttHistory ls) - sampleCount) (historyMs ls);
                total = sum_list window;
                sumSquares = sum_list (map (\<lambda>x. x * x) window);
                mean = total / real sampleCount;
                variance = sumSquares / real sampleCount - mean * mean;
                stddev = sqrt variance;
                coefficientOfVariation = (if 0 < mean then stddev / mean else 0)
            in if coefficientOfVariation \<le> 1 / 10 then 0
               else if coefficientOfVariation \<le> 3 / 10 then coefficientOfVariation / (3 / 10) * (4 / 10)
               else 4 / 10 + min (6 / 10) ((coefficientOfVariation - 3 / 10) / (7 / 10) * (6 / 10)))"

definition calculateReliabilityPerformanceScore :: "OutgoingLinkState \<Rightarrow> real" where
  "calculateReliabilityPerformanceScore linkState =
     (if timeoutCount linkState = 0 then 0
      else if timeoutCount linkState \<le> 2 then 2 / 10
      else if timeoutCount linkState \<le> 5 then 5 / 10
      else 8 / 10)"

definition calculateTrendPerformanceScore :: "name \<Rightarrow> LinkCostManager \<Rightarrow> real" where
  "calculateTrendPerformanceScore neighbor s =
     (case m_outgoingLinks s neighbor of
        None \<Rightarrow> 0
      | Some ls \<Rightarrow>
          if length (rttHistory ls) < 6 then 0
          else
            let n = length (rttHistory ls);
                recentAvg = sum_list (drop (n - 3) (historyMs ls)) / 3;
                previousAvg = sum_list (take 3 (drop (n - 6) (historyMs ls))) / 3
            in if 0 < previousAvg then
                 let changeRatio = (recentAvg - previousAvg) / previousAvg
                 in if changeRatio \<le> - (1 / 10) then 0
                    else if changeRatio \<le> 1 / 10 then 2 / 10
                    else if changeRatio \<le> 3 / 10 then 5 / 10
                    else 8 / 10
               else 0)"

definition calculateRealTimePerformance :: "name \<Rightarrow> duration \<Rightarrow> LinkCostManager \<Rightarrow> real" where
  "calculateRealTimePerformance neighbor currentRtt s =
     (case m_outgoingLinks s neighbor of
        None \<Rightarrow> 1 / 2
      | Some linkState \<Rightarrow>
          let currentRttMs = real_of_int (duration_cast_ms currentRtt);
              totalPerformance =
                RTT_WEIGHT * calculateRttPerformanceScore currentRttMs
                + STABILITY_WEIGHT * calculateStabilityPerformanceScore neighbor s
                + RELIABILITY_WEIGHT * calculateReliabilityPerformanceScore linkState
                + TREND_WEIGHT * calculateTrendPerformanceScore neighbor s
          in max 0 (min 1 totalPerformance))"

section \<open>LinkCostManager: probe responses and timers\<close>

text \<open>
  The tail of \<^verbatim>\<open>handleRttResponse\<close>, after the range check. \<open>rttMs\<close> is the local
  millisecond count (set to 1 when the measured count was below 1); the source uses it in
  its log lines only and hands the measured duration \<open>rtt\<close> to the history, to the
  feedback score and, through the history, to the cost computation.
\<close>

definition acceptRttSample :: "Config \<Rightarrow> time_point \<Rightarrow> name \<Rightarrow> duration \<Rightarrow> int \<Rightarrow> LinkCostManager \<Rightarrow> LinkCostManager" where
  "acceptRttSample cfg now neighbor rtt_measured rttMs s =
     (case m_outgoingLinks s neighbor of
        None \<Rightarrow> s
      | Some ls0 \<Rightarrow>
          if \<not> isStable ls0 then s
          else
            let ls1 = addRttMeasurement (rttHistoryCapacity cfg) rtt_measured now ls0;
                s1 = s\<lparr>m_outgoingLinks := (m_outgoingLinks s)(neighbor \<mapsto> ls1)\<rparr>;
                s2 = (if m_mlFeedbackCallback s1 \<and> MIN_SAMPLES_FOR_ML_FEEDBACK \<le> length (rttHistory ls1)
                      then s1\<lparr>mlFeedbackSent := mlFeedbackSent s1 @
                                [(neighbor, calculateRealTimePerformance neighbor rtt_measured s1)]\<rparr>
                      else s1)
            in if 3 \<le> length (rttHistory ls1) then
                 let newCost = calculateNewCost cfg neighbor s2
                 in if shouldUpdateCost cfg neighbor newCost s2
                    then updateNeighborCost now neighbor newCost s2
                    else s2
               else s2)"

definition handleRttResponse :: "Config \<Rightarrow> time_point \<Rightarrow> name \<Rightarrow> seqno \<Rightarrow> time_point \<Rightarrow> LinkCostManager \<Rightarrow> LinkCostManager" where
  "handleRttResponse cfg now neighbor seq sendTime s =
     (case m_pendingMeasurements s seq of
        None \<Rightarrow> s
      | Some entry \<Rightarrow>
          let rtt_measured = now - sendTime;
              s1 = s\<lparr>m_pendingMeasurements := (m_pendingMeasurements s)(seq := None),
                     m_successfulMeasurements := m_successfulMeasurements s + 1\<rparr>;
              rttMs = duration_cast_ms rtt_measured
          in if rttMs < 1 then acceptRttSample cfg now neighbor rtt_measured 1 s1
             else if 5000 < rttMs then s1
             else acceptRttSample cfg now neighbor rtt_measured rttMs s1)"

definition handleRttTimeout :: "name \<Rightarrow> seqno \<Rightarrow> LinkCostManager \<Rightarrow> LinkCostManager" where
  "handleRttTimeout neighbor seq s =
     (case m_pendingMeasurements s seq of
        None \<Rightarrow> s
      | Some entry \<Rightarrow> s\<lparr>m_pendingMeasurements := (m_pendingMeasurements s)(seq := None)\<rparr>)"

text \<open>The callbacks the manager hands to the scheduler.\<close>

definition measurementTimerFired :: "Config \<Rightarrow> time_point \<Rightarrow> seqno \<Rightarrow> name \<Rightarrow> LinkCostManager \<Rightarrow> LinkCostManager" where
  "measurementTimerFired cfg now rnd neighbor s =
     scheduleRttMeasurement cfg now rnd neighbor
       (if canMeasureNow neighbor s then performRttMeasurement now neighbor s else s)"

definition generateStatusReport :: "time_point \<Rightarrow> LinkCostManager \<Rightarrow> LinkCostManager" where
  "generateStatusReport now s =
     (if \<not> m_isActive s then s
      else s\<lparr>m_scheduler := (m_scheduler s)(StatusReportTick :=
                m_scheduler s StatusReportTick @ [now + minutes 10])\<rparr>)"

text \<open>
  The warm-up callback of \<^verbatim>\<open>start\<close>: one \<^verbatim>\<open>scheduleRttMeasurement\<close> for every stable
  neighbor (\<open>rnd n\<close> is the random word drawn for neighbor \<open>n\<close>), then the first status report
  tick.
\<close>

definition warmupTimerFired :: "Config \<Rightarrow> time_point \<Rightarrow> (name \<Rightarrow> seqno) \<Rightarrow> LinkCostManager \<Rightarrow> LinkCostManager" where
  "warmupTimerFired cfg now rnd s =
     s\<lparr>m_scheduler := (\<lambda>task. case task of
          MeasurementDue n \<Rightarrow>
            (case m_outgoingLinks s n of
               None \<Rightarrow> m_scheduler s task
             | Some ls \<Rightarrow> if isStable ls
                 then m_scheduler (scheduleRttMeasurement cfg now (rnd n) n s) task
                 else m_scheduler s task)
        | StatusReportTick \<Rightarrow> m_scheduler s task @ [now + minutes 10]
        | WarmupDone \<Rightarrow> m_scheduler s task)\<rparr>"

definition setLoadAwareCostCalculator :: "LoadAwareCostCalculator \<Rightarrow> LinkCostManager \<Rightarrow> LinkCostManager" where
  "setLoadAwareCostCalculator calculator s = s\<lparr>m_loadAwareCostCalculator := Some calculator\<rparr>"

definition clearLoadAwareCostCalculator :: "LinkCostManager \<Rightarrow> LinkCostManager" where
  "clearLoadAwareCostCalculator s = s\<lparr>m_loadAwareCostCalculator := None\<rparr>"

definition setMLFeedbackCallback :: "LinkCostManager \<Rightarrow> LinkCostManager" where
  "setMLFeedbackCallback s = s\<lparr>m_mlFeedbackCallback := True\<rparr>"

definition clearMLFeedbackCallback :: "LinkCostManager \<Rightarrow> LinkCostManager" where
  "clearMLFeedbackCallback s = s\<lparr>m_mlFeedbackCallback := False\<rparr>"

text \<open>
  The events the event loop delivers to the manager after the one-shot \<^verbatim>\<open>initialize\<close>, each
  with the clock value at which its handler runs. A timer callback may run at any time (the
  due times held by the scheduler are not consulted), and \<open>CostUpdate\<close> calls
  \<^verbatim>\<open>updateNeighborCost\<close> with any candidate, so the runs cover every execution of the
  source and more. The packets the manager sends and signs are not part of the state. After
  an exception has left a handler the run goes on from the state the handler had reached.
\<close>

datatype Event =
    HelloInterestSent name
  | HelloDataReceived seqno name
  | HelloTimeout name nat
  | NeighborStatusChanged seqno name Status
  | RttResponse name seqno time_point
  | RttTimeout name seqno
  | CostUpdate name real
  | Start
  | Stop
  | WarmupTimer "name \<Rightarrow> seqno"
  | MeasurementTimer seqno name
  | StatusReportTimer
  | SetCalculator LoadAwareCostCalculator
  | ClearCalculator
  | SetFeedback
  | ClearFeedback

fun step :: "Config \<Rightarrow> LinkCostManager \<Rightarrow> time_point \<times> Event \<Rightarrow> LinkCostManager" where
  "step cfg s (now, HelloInterestSent n) = onHelloInterestSent n s"
| "step cfg s (now, HelloDataReceived rnd n) = onHelloDataReceived cfg now rnd n s"
| "step cfg s (now, HelloTimeout n k) = onHelloTimeout cfg n k s"
| "step cfg s (now, NeighborStatusChanged rnd n st) = onNeighborStatusChanged cfg now rnd n st s"
| "step cfg s (now, RttResponse n q sendTime) = handleRttResponse cfg now n q sendTime s"
| "step cfg s (now, RttTimeout n q) = handleRttTimeout n q s"
| "step cfg s (now, CostUpdate n c) = updateNeighborCost now n c s"
| "step cfg s (now, Start) = start now s"
| "step cfg s (now, Stop) = stop s"
| "step cfg s (now, WarmupTimer rnd) = warmupTimerFired cfg now rnd s"
| "step cfg s (now, MeasurementTimer rnd n) = measurementTimerFired cfg now rnd n s"
| "step cfg s (now, StatusReportTimer) = generateStatusReport now s"
| "step cfg s (now, SetCalculator f) = setLoadAwareCostCalculator f s"
| "step cfg s (now, ClearCalculator) = clearLoadAwareCostCalculator s"
| "step cfg s (now, SetFeedback) = setMLFeedbackCallback s"
| "step cfg s (now, ClearFeedback) = clearMLFeedbackCallback s"

definition run :: "Config \<Rightarrow> (time_point \<times> Event) list \<Rightarrow> LinkCostManager \<Rightarrow> LinkCostManager" where
  "run cfg events s = foldl (step cfg) s events"

section \<open>MLAdaptiveCalculator\<close>

text \<open>
  The model object is created by the constructor and never reset, so the null tests of the
  source on \<^verbatim>\<open>m_model\<close> always succeed; the model is a plain field here. The local wall-clock
  time read by the pattern learner is the parameter \<open>wall\<close>.
\<close>

record LinearRegressionModel =
  m_weights :: "real list"
  m_bias :: real
  m_updateCount :: nat

record WallClock =
  tm_hour :: int
  tm_min :: int

record TimeSlot =
  ts_hour :: int
  ts_minute :: int
  averagePerformance :: real
  sampleCount :: int
  lastUpdate :: time_point

record Statistics =
  predictionCount :: nat
  modelUpdateCount :: nat
  patternDetectionCount :: nat
  averagePredictionError :: real

record PerformanceRecord =
  predictedScore :: real
  actualPerformance :: real
  pr_timestamp :: time_point

record MLAdaptiveCalculator =
  m_model :: LinearRegressionModel
  m_timePatterns :: "name \<rightharpoonup> (int \<rightharpoonup> TimeSlot)"
  m_learningRate :: real
  m_adaptationThreshold :: real
  m_performanceHistory :: "name \<rightharpoonup> PerformanceRecord list"
  m_rttHistory :: "name \<rightharpoonup> real list"
  m_statistics :: Statistics
  m_isModelReady :: bool
  m_lastModelUpdate :: time_point

definition FEATURE_COUNT :: nat where "FEATURE_COUNT = 5"
definition FIXED_WEIGHTS :: "real list" where "FIXED_WEIGHTS = [4 / 10, 3 / 10, 2 / 10, 1 / 10]"
definition MAX_PERFORMANCE_HISTORY :: nat where "MAX_PERFORMANCE_HISTORY = 100"
definition MAX_RTT_HISTORY :: nat where "MAX_RTT_HISTORY = 20"
definition MIN_UPDATE_INTERVAL :: duration where "MIN_UPDATE_INTERVAL = seconds 30"

definition newLinearRegressionModel :: "nat \<Rightarrow> LinearRegressionModel" where
  "newLinearRegressionModel featureCount =
     (let w0 = replicate featureCount (2 / 10);
          w1 = (if 4 \<le> featureCount then w0[0 := 4 / 10, 1 := 3 / 10, 2 := 2 / 10, 3 := 1 / 10] else w0);
          w2 = (if 5 \<le> featureCount then w1[4 := 15 / 100] else w1)
      in \<lparr>m_weights = w2, m_bias = 0, m_updateCount = 0\<rparr>)"

text \<open>The loop of \<^verbatim>\<open>predict\<close> runs over the common prefix of weights and features.\<close>

definition weightedSum :: "real \<Rightarrow> real list \<Rightarrow> real list \<Rightarrow> real" where
  "weightedSum b ws xs = foldl (\<lambda>acc p. acc + fst p * snd p) b (zip ws xs)"

definition predict :: "LinearRegressionModel \<Rightarrow> real list \<Rightarrow> real" where
  "predict m features = 1 / (1 + exp (- weightedSum (m_bias m) (m_weights m) features))"

definition updateOnline :: "real list \<Rightarrow> real \<Rightarrow> real \<Rightarrow> LinearRegressionModel \<Rightarrow> LinearRegressionModel" where
  "updateOnline features target learningRate m =
     (if length features \<noteq> length (m_weights m) then m
      else
        let prediction = predict m features;
            error = target - prediction
        in m\<lparr>m_bias := m_bias m + learningRate * error,
              m_weights := map (\<lambda>p. fst p + learningRate * error * snd p) (zip (m_weights m) features),
              m_updateCount := m_updateCount m + 1\<rparr>)"

definition getTimeSlotKey :: "int \<Rightarrow> int \<Rightarrow> int" where
  "getTimeSlotKey h mi = h * 60 + mi"

definition currentTimeSlot :: "WallClock \<Rightarrow> int" where
  "currentTimeSlot wall = getTimeSlotKey (tm_hour wall) (trunc_div (tm_min wall) 10 * 10)"

definition updatePattern :: "WallClock \<Rightarrow> time_point \<Rightarrow> name \<Rightarrow> real \<Rightarrow> (name \<rightharpoonup> (int \<rightharpoonup> TimeSlot)) \<Rightarrow> (name \<rightharpoonup> (int \<rightharpoonup> TimeSlot))" where
  "updatePattern wall now neighbor performance patterns =
     (let timeSlotKey = currentTimeSlot wall;
          slots = (case patterns neighbor of None \<Rightarrow> Map.empty | Some m \<Rightarrow> m);
          timeSlot = (case slots timeSlotKey of
                        None \<Rightarrow> \<lparr>ts_hour = 0, ts_minute = 0, averagePerformance = 0, sampleCount = 0, lastUpdate = 0\<rparr>
                      | Some t \<Rightarrow> t);
          updated = (if sampleCount timeSlot = 0
                     then timeSlot\<lparr>ts_hour := tm_hour wall,
                                   ts_minute := trunc_div (tm_min wall) 10 * 10,
                                   averagePerformance := performance,
                                   sampleCount := 1\<rparr>
                     else timeSlot\<lparr>averagePerformance :=
                                     (1 / 10) * performance + (1 - 1 / 10) * averagePerformance timeSlot,
                                   sampleCount := sampleCount timeSlot + 1\<rparr>)
      in patterns(neighbor \<mapsto> slots(timeSlotKey \<mapsto> updated\<lparr>lastUpdate := now\<rparr>)))"

definition getTimeFeature :: "WallClock \<Rightarrow> name \<Rightarrow> (name \<rightharpoonup> (int \<rightharpoonup> TimeSlot)) \<Rightarrow> real" where
  "getTimeFeature wall neighbor patterns =
     (case patterns neighbor of
        None \<Rightarrow> 1 / 2
      | Some slots \<Rightarrow>
          (case slots (currentTimeSlot wall) of
             None \<Rightarrow> 1 / 2
           | Some slot \<Rightarrow> averagePerformance slot))"

definition newMLAdaptiveCalculator :: "time_point \<Rightarrow> MLAdaptiveCalculator" where
  "newMLAdaptiveCalculator now =
     \<lparr>m_model = newLinearRegressionModel FEATURE_COUNT,
      m_timePatterns = Map.empty,
      m_learningRate = 1 / 100,
      m_adaptationThreshold = 2 / 10,
      m_performanceHistory = Map.empty,
      m_rttHistory = Map.empty,
      m_statistics = \<lparr>predictionCount = 0, modelUpdateCount = 0, patternDetectionCount = 0,
                      averagePredictionError = 0\<rparr>,
      m_isModelReady = False,
      m_lastModelUpdate = now\<rparr>"

text \<open>\<^verbatim>\<open>calculatePath\<close>: counts the call and runs the host's link-state computation.\<close>

definition calculatePath :: "MLAdaptiveCalculator \<Rightarrow> MLAdaptiveCalculator" where
  "calculatePath ml =
     ml\<lparr>m_statistics := (m_statistics ml)\<lparr>predictionCount := predictionCount (m_statistics ml) + 1\<rparr>\<rparr>"

definition clampUnit :: "real \<Rightarrow> real" where
  "clampUnit x = max (- 1) (min x 1)"

definition calculateRttTrend :: "name \<Rightarrow> MLAdaptiveCalculator \<Rightarrow> real" where
  "calculateRttTrend neighbor ml =
     (case m_rttHistory ml neighbor of
        None \<Rightarrow> 0
      | Some history \<Rightarrow>
          if length history < 10 then 0
          else
            let n = length history;
                recentAvg = sum_list (drop (n - 5) history) / 5;
                oldAvg = sum_list (take 5 (drop (n - 10) history)) / 5
            in if 0 < oldAvg then clampUnit (recentAvg / oldAvg - 1) else 0)"

definition calculateRttVariationCoefficient :: "name \<Rightarrow> MLAdaptiveCalculator \<Rightarrow> real" where
  "calculateRttVariationCoefficient neighbor ml =
     (case m_rttHistory ml neighbor of
        None \<Rightarrow> 0
      | Some history \<Rightarrow>
          if length history < 3 then 0
          else
            let mean = sum_list history / real (length history)
            in if mean \<le> 0 then 1
               else
                 let variance = sum_list (map (\<lambda>x. (x - mean) * (x - mean)) history);
                     stddev = sqrt (variance / real (length history));
                     cv = stddev / mean
                 in min cv 1)"

definition calculateSuccessRate :: "name \<Rightarrow> MLAdaptiveCalculator \<Rightarrow> real" where
  "calculateSuccessRate neighbor ml =
     (case m_rttHistory ml neighbor of
        None \<Rightarrow> 1 / 2
      | Some history \<Rightarrow>
          if history = [] then 1 / 2
          else real (length (filter (\<lambda>x. x < 500) history)) / real (length history))"

definition calculateLoadIndicator :: "name \<Rightarrow> MLAdaptiveCalculator \<Rightarrow> real" where
  "calculateLoadIndicator neighbor ml =
     (case m_rttHistory ml neighbor of
        None \<Rightarrow> 0
      | Some history \<Rightarrow>
          if length history < 5 then 0
          else
            let n = length history
            in if 3 \<le> n then
                 let recent = history ! (n - 1);
                     middle = history ! (n - 2);
                     old = history ! (n - 3);
                     acceleration = (recent - middle) - (middle - old)
                 in clampUnit (acceleration / 100)
               else 0)"

definition extractCoreFeatures :: "WallClock \<Rightarrow> name \<Rightarrow> MLAdaptiveCalculator \<Rightarrow> real list" where
  "extractCoreFeatures wall neighbor ml =
     [calculateRttTrend neighbor ml,
      calculateRttVariationCoefficient neighbor ml,
      calculateSuccessRate neighbor ml,
      calculateLoadIndicator neighbor ml,
      getTimeFeature wall neighbor (m_timePatterns ml)]"

definition predictWithFixedWeights :: "real list \<Rightarrow> real" where
  "predictWithFixedWeights features = max 0 (min (weightedSum 0 FIXED_WEIGHTS features) 1)"

text \<open>The prediction chosen by \<^verbatim>\<open>predictLinkQuality\<close>.\<close>

definition mlPrediction :: "WallClock \<Rightarrow> name \<Rightarrow> MLAdaptiveCalculator \<Rightarrow> real" where
  "mlPrediction wall neighbor ml =
     (let features = extractCoreFeatures wall neighbor ml
      in if m_isModelReady ml then predict (m_model ml) features
         else predictWithFixedWeights features)"

definition predictLinkQuality :: "WallClock \<Rightarrow> name \<Rightarrow> LinkMetrics \<Rightarrow> MLAdaptiveCalculator \<Rightarrow> real \<times> MLAdaptiveCalculator" where
  "predictLinkQuality wall neighbor metrics ml =
     (let finalCost = real (lm_originalCost metrics) * (1 + mlPrediction wall neighbor ml);
          ml' = (case lm_currentRtt metrics of
                   None \<Rightarrow> ml
                 | Some currentRtt \<Rightarrow>
                     let rttMs = real_of_int (duration_cast_ms currentRtt);
                         history = (case m_rttHistory ml neighbor of None \<Rightarrow> [] | Some h \<Rightarrow> h) @ [rttMs]
                     in ml\<lparr>m_rttHistory := (m_rttHistory ml)(neighbor \<mapsto>
                             (if MAX_RTT_HISTORY < length history then tl history else history))\<rparr>)
      in (finalCost, ml'))"

text \<open>
  The function the constructor registers with \<^verbatim>\<open>setLoadAwareCostCalculator\<close>: the lambda
  receives \<open>rttBasedCost\<close> and calls \<^verbatim>\<open>predictLinkQuality(neighbor, metrics)\<close>.
\<close>

definition registeredCostCallback :: "WallClock \<Rightarrow> MLAdaptiveCalculator \<Rightarrow> LoadAwareCostCalculator" where
  "registeredCostCallback wall ml neighbor rttBasedCost metrics =
     Returned (fst (predictLinkQuality wall neighbor metrics ml))"

definition shouldTriggerModelUpdate :: "time_point \<Rightarrow> real \<Rightarrow> MLAdaptiveCalculator \<Rightarrow> bool" where
  "shouldTriggerModelUpdate now predictionError ml =
     (if m_adaptationThreshold ml < predictionError then True
      else if MIN_UPDATE_INTERVAL < now - m_lastModelUpdate ml then True
      else False)"

definition adaptLearningRate :: "MLAdaptiveCalculator \<Rightarrow> MLAdaptiveCalculator" where
  "adaptLearningRate ml =
     (if 3 / 10 < averagePredictionError (m_statistics ml)
      then ml\<lparr>m_learningRate := min (5 / 100) (m_learningRate ml * (11 / 10))\<rparr>
      else if averagePredictionError (m_statistics ml) < 1 / 10
      then ml\<lparr>m_learningRate := max (1 / 1000) (m_learningRate ml * (9 / 10))\<rparr>
      else ml)"

definition updateModelWithFeedback :: "time_point \<Rightarrow> name \<Rightarrow> real list \<Rightarrow> real \<Rightarrow> MLAdaptiveCalculator \<Rightarrow> MLAdaptiveCalculator" where
  "updateModelWithFeedback now neighbor features actual ml =
     (if length features \<noteq> FEATURE_COUNT then ml
      else
        let prediction = predict (m_model ml) features;
            error = \<bar>actual - prediction\<bar>;
            st = m_statistics ml;
            ml1 = ml\<lparr>m_statistics := st\<lparr>averagePredictionError :=
                     (if 0 < predictionCount st
                      then (averagePredictionError st * real (predictionCount st - 1) + error)
                             / real (predictionCount st)
                      else error)\<rparr>\<rparr>
        in if shouldTriggerModelUpdate now error ml1 then
             let ml2 = adaptLearningRate ml1;
                 ml3 = ml2\<lparr>m_model := updateOnline features actual (m_learningRate ml2) (m_model ml2)\<rparr>
             in ml3\<lparr>m_statistics := (m_statistics ml3)\<lparr>modelUpdateCount :=
                        modelUpdateCount (m_statistics ml3) + 1\<rparr>,
                    m_lastModelUpdate := now,
                    m_isModelReady := True\<rparr>
           else ml1)"

definition reportPathPerformance :: "WallClock \<Rightarrow> time_point \<Rightarrow> name \<Rightarrow> real \<Rightarrow> MLAdaptiveCalculator \<Rightarrow> MLAdaptiveCalculator" where
  "reportPathPerformance wall now neighbor actual ml =
     (let features = extractCoreFeatures wall neighbor ml;
          ml1 = ml\<lparr>m_timePatterns := updatePattern wall now neighbor actual (m_timePatterns ml)\<rparr>;
          ml2 = updateModelWithFeedback now neighbor features actual ml1;
          perfRecord = \<lparr>predictedScore = predict (m_model ml2) features,
                    actualPerformance = actual,
                    pr_timestamp = now\<rparr>;
          history = (case m_performanceHistory ml2 neighbor of None \<Rightarrow> [] | Some h \<Rightarrow> h) @ [perfRecord]
      in ml2\<lparr>m_performanceHistory := (m_performanceHistory ml2)(neighbor \<mapsto>
              (if MAX_PERFORMANCE_HISTORY < length history then tl history else history))\<rparr>)"

section \<open>MLAdaptiveCalculator: the prediction path with checked divisions\<close>

text \<open>
  A second reading of the prediction path of \<^verbatim>\<open>predictLinkQuality\<close>, in which the operations
  that turn finite operands into an infinity or a NaN are checked: a division whose divisor
  is zero and a square root of a negative number give \<open>NonFinite\<close>, and a non-finite operand
  makes every later result non-finite. The numbers the calculator holds (histories, pattern
  averages, weights) are finite; overflow and rounding are not represented.
\<close>

datatype fval = Finite real | NonFinite

definition fdiv :: "real \<Rightarrow> real \<Rightarrow> fval" where
  "fdiv a b = (if b = 0 then NonFinite else Finite (a / b))"

definition fsqrt :: "real \<Rightarrow> fval" where
  "fsqrt a = (if a < 0 then NonFinite else Finite (sqrt a))"

definition fbind :: "fval \<Rightarrow> (real \<Rightarrow> fval) \<Rightarrow> fval" where
  "fbind v f = (case v of NonFinite \<Rightarrow> NonFinite | Finite x \<Rightarrow> f x)"

fun fcollect :: "fval list \<Rightarrow> real list option" where
  "fcollect [] = Some []"
| "fcollect (NonFinite # vs) = None"
| "fcollect (Finite x # vs) = map_option (\<lambda>xs. x # xs) (fcollect vs)"

definition calculateRttTrendChecked :: "name \<Rightarrow> MLAdaptiveCalculator \<Rightarrow> fval" where
  "calculateRttTrendChecked neighbor ml =
     (case m_rttHistory ml neighbor of
        None \<Rightarrow> Finite 0
      | Some history \<Rightarrow>
          if length history < 10 then Finite 0
          else
            let n = length history
            in fbind (fdiv (sum_list (drop (n - 5) history)) 5) (\<lambda>recentAvg.
               fbind (fdiv (sum_list (take 5 (drop (n - 10) history))) 5) (\<lambda>oldAvg.
                 if 0 < oldAvg
                 then fbind (fdiv recentAvg oldAvg) (\<lambda>q. Finite (clampUnit (q - 1)))
                 else Finite 0)))"

definition calculateRttVariationCoefficientChecked :: "name \<Rightarrow> MLAdaptiveCalculator \<Rightarrow> fval" where
  "calculateRttVariationCoefficientChecked neighbor ml =
     (case m_rttHistory ml neighbor of
        None \<Rightarrow> Finite 0
      | Some history \<Rightarrow>
          if length history < 3 then Finite 0
          else
            fbind (fdiv (sum_list history) (real (length history))) (\<lambda>mean.
              if mean \<le> 0 then Finite 1
              else
                let variance = sum_list (map (\<lambda>x. (x - mean) * (x - mean)) history)
                in fbind (fdiv variance (real (length history))) (\<lambda>v.
                   fbind (fsqrt v) (\<lambda>stddev.
                   fbind (fdiv stddev mean) (\<lambda>cv. Finite (min cv 1))))))"

definition calculateSuccessRateChecked :: "name \<Rightarrow> MLAdaptiveCalculator \<Rightarrow> fval" where
  "calculateSuccessRateChecked neighbor ml =
     (case m_rttHistory ml neighbor of
        None \<Rightarrow> Finite (1 / 2)
      | Some history \<Rightarrow>
          if history = [] then Finite (1 / 2)
          else fdiv (real (length (filter (\<lambda>x. x < 500) history))) (real (length history)))"

definition calculateLoadIndicatorChecked :: "name \<Rightarrow> MLAdaptiveCalculator \<Rightarrow> fval" where
  "calculateLoadIndicatorChecked neighbor ml =
     (case m_rttHistory ml neighbor of
        None \<Rightarrow> Finite 0
      | Some history \<Rightarrow>
          if length history < 5 then Finite 0
          else
            let n = length history
            in if 3 \<le> n then
                 let recent = history ! (n - 1);
                     middle = history ! (n - 2);
                     old = history ! (n - 3);
                     acceleration = (recent - middle) - (middle - old)
                 in fbind (fdiv acceleration 100) (\<lambda>q. Finite (clampUnit q))
               else Finite 0)"

definition extractCoreFeaturesChecked :: "WallClock \<Rightarrow> name \<Rightarrow> MLAdaptiveCalculator \<Rightarrow> fval list" where
  "extractCoreFeaturesChecked wall neighbor ml =
     [calculateRttTrendChecked neighbor ml,
      calculateRttVariationCoefficientChecked neighbor ml,
      calculateSuccessRateChecked neighbor ml,
      calculateLoadIndicatorChecked neighbor ml,
      Finite (getTimeFeature wall neighbor (m_timePatterns ml))]"

definition predictChecked :: "LinearRegressionModel \<Rightarrow> real list \<Rightarrow> fval" where
  "predictChecked m features = fdiv 1 (1 + exp (- weightedSum (m_bias m) (m_weights m) features))"

definition predictLinkQualityChecked :: "WallClock \<Rightarrow> name \<Rightarrow> LinkMetrics \<Rightarrow> MLAdaptiveCalculator \<Rightarrow> fval" where
  "predictLinkQualityChecked wall neighbor metrics ml =
     (case fcollect (extractCoreFeaturesChecked wall neighbor ml) of
        None \<Rightarrow> NonFinite
      | Some features \<Rightarrow>
          fbind (if m_isModelReady ml then predictChecked (m_model ml) features
                 else Finite (predictWithFixedWeights features))
            (\<lambda>prediction. Finite (real (lm_originalCost metrics) * (1 + prediction))))"

section \<open>Multi-dimensional cost preview\<close>

text \<open>
  Modelled from the spec: \<^verbatim>\<open>calculateMultiDimensionalCostPreview\<close> and the external
  metrics it reads are described by the repository's documentation and by the spec, but the
  functions are not in the \<^verbatim>\<open>link-cost-manager.cpp\<close> at hand. Each externally set metric is
  optional; a missing input takes the documented default (20 ms, 0.30, 0.01, -50 dBm).
\<close>

record ExternalMetrics =
  bandwidth_mbps :: "real option"
  utilization :: "real option"
  packet_loss :: "real option"
  spectrum_dbm :: "real option"

datatype ChannelError = NotFound | InvalidArgument

definition rttFactor :: "real option \<Rightarrow> real" where
  "rttFactor avg =
     (case avg of
        None \<Rightarrow> 1 + 20 / 200
      | Some avgRttMs \<Rightarrow>
          if avgRttMs \<le> 0 then 1 else if 200 \<le> avgRttMs then 2 else 1 + avgRttMs / 200)"

definition bwFactor :: "real option \<Rightarrow> real" where
  "bwFactor u =
     (case u of
        None \<Rightarrow> 1 + 3 / 10
      | Some util \<Rightarrow> if util \<le> 0 then 1 else if 1 \<le> util then 2 else 1 + util)"

definition reliabilityFactor :: "real option \<Rightarrow> real" where
  "reliabilityFactor l =
     (case l of
        None \<Rightarrow> 1 + (1 / 100) * 2
      | Some loss \<Rightarrow> if loss \<le> 0 then 1 else if 1 / 2 \<le> loss then 2 else 1 + loss * 2)"

definition spectrumFactor :: "real option \<Rightarrow> real" where
  "spectrumFactor sp =
     (case sp of
        None \<Rightarrow> 1 + (- 30 - (- 50)) / 50
      | Some strength \<Rightarrow>
          if - 30 \<le> strength then 1 else if strength \<le> - 80 then 2 else 1 + (- 30 - strength) / 50)"

definition averageRttMs :: "OutgoingLinkState \<Rightarrow> real option" where
  "averageRttMs ls =
     (if rttHistory ls = [] then None
      else Some (real_of_int (duration_cast_ms (getAverageRtt ls))))"

definition externalOf :: "(name \<rightharpoonup> ExternalMetrics) \<Rightarrow> name \<Rightarrow> ExternalMetrics" where
  "externalOf ext neighbor =
     (case ext neighbor of
        None \<Rightarrow> \<lparr>bandwidth_mbps = None, utilization = None, packet_loss = None, spectrum_dbm = None\<rparr>
      | Some e \<Rightarrow> e)"

definition compositeFactor :: "OutgoingLinkState \<Rightarrow> ExternalMetrics \<Rightarrow> real" where
  "compositeFactor ls e =
     (4 / 10) * rttFactor (averageRttMs ls)
     + (3 / 10) * bwFactor (utilization e)
     + (2 / 10) * reliabilityFactor (packet_loss e)
     + (1 / 10) * spectrumFactor (spectrum_dbm e)"

definition calculateMultiDimensionalCostPreview :: "(name \<rightharpoonup> ExternalMetrics) \<Rightarrow> name \<Rightarrow> LinkCostManager \<Rightarrow> ChannelError + real" where
  "calculateMultiDimensionalCostPreview ext neighbor s =
     (case m_outgoingLinks s neighbor of
        None \<Rightarrow> Inl NotFound
      | Some ls \<Rightarrow>
          Inr (std_round (real (originalCost ls) * compositeFactor ls (externalOf ext neighbor))))"

section \<open>Spec-side quantities and the scenarios of the specification\<close>

text \<open>The mean of a history in milliseconds, as a real number.\<close>

definition meanRttMs :: "RttMeasurement list \<Rightarrow> real" where
  "meanRttMs h = real_of_int (sum_list (map rtt h)) / real (length h) / 1000000"

text \<open>
  The check on the request log: a cost-update request for a neighbor is at least ten seconds
  later than every earlier one for the same neighbor (the log is newest first).
\<close>

definition earlierBuildFarEnough :: "name \<Rightarrow> time_point \<Rightarrow> BuildRequest \<Rightarrow> bool" where
  "earlierBuildFarEnough n t r =
     (case r of
        StopBuild \<Rightarrow> True
      | CostUpdateBuild m u \<Rightarrow> if m = n then seconds 10 \<le> t - u else True)"

fun rebuildsSpaced :: "BuildRequest list \<Rightarrow> bool" where
  "rebuildsSpaced [] = True"
| "rebuildsSpaced (StopBuild # rs) = rebuildsSpaced rs"
| "rebuildsSpaced (CostUpdateBuild n t # rs) = (list_all (earlierBuildFarEnough n t) rs \<and> rebuildsSpaced rs)"

definition neighborA :: name where "neighborA = ''/ndn/a''"
definition neighborB :: name where "neighborB = ''/ndn/b''"

definition exampleConfig :: Config where
  "exampleConfig =
     \<lparr>interestRetryNumber = 3, maxCostMultiplier = 5, costChangeThreshold = 5 / 100,
      measurementInterval = seconds 30, rttHistoryCapacity = 10\<rparr>"

definition exampleAdjacent :: "nat \<Rightarrow> Adjacent" where
  "exampleAdjacent c =
     \<lparr>a_status = STATUS_ACTIVE, a_originalLinkCost = c, a_linkCost = real c, a_interestTimedOutNo = 0\<rparr>"

definition freshManager :: LinkCostManager where
  "freshManager =
     \<lparr>m_outgoingLinks = Map.empty,
      m_adjacencyList = [neighborA \<mapsto> exampleAdjacent 10, neighborB \<mapsto> exampleAdjacent 12],
      m_pendingMeasurements = Map.empty,
      m_scheduler = (\<lambda>_. []),
      m_isActive = False,
      m_nextSequenceNumber = 1,
      m_totalMeasurements = 0,
      m_successfulMeasurements = 0,
      m_costUpdates = 0,
      m_loadAwareCostCalculator = None,
      m_mlFeedbackCallback = False,
      lsdbAdjLsaBuilds = [],
      routingTableCalculations = 0,
      mlFeedbackSent = [],
      escapedExceptions = 0\<rparr>"

definition exampleManager :: LinkCostManager where
  "exampleManager = initialize 0 freshManager"

definition sampleOf :: "int \<Rightarrow> RttMeasurement" where
  "sampleOf ms = \<lparr>rtt = milliseconds ms, timestamp = 0\<rparr>"

definition withHistory :: "name \<Rightarrow> RttMeasurement list \<Rightarrow> LinkCostManager \<Rightarrow> LinkCostManager" where
  "withHistory n h s =
     s\<lparr>m_outgoingLinks := (\<lambda>k. if k = n then map_option (\<lambda>ls. ls\<lparr>rttHistory := h\<rparr>) (m_outgoingLinks s k)
                                   else m_outgoingLinks s k)\<rparr>"

text \<open>A real number cut to a whole number towards zero.\<close>

definition truncateReal :: "real \<Rightarrow> int" where
  "truncateReal x = (if 0 \<le> x then \<lfloor>x\<rfloor> else \<lceil>x\<rceil>)"

text \<open>
  The invariant behind the rate limit: every logged cost-update request of a neighbor is no
  later than the neighbor's \<open>lastLsaTriggerTime\<close>, and the log is spaced.
\<close>

definition lastTrigger :: "LinkCostManager \<Rightarrow> name \<Rightarrow> time_point option" where
  "lastTrigger s m = map_option lastLsaTriggerTime (m_outgoingLinks s m)"

definition buildCoveredBy :: "(name \<Rightarrow> time_point option) \<Rightarrow> BuildRequest \<Rightarrow> bool" where
  "buildCoveredBy trig r =
     (case r of
        StopBuild \<Rightarrow> True
      | CostUpdateBuild m u \<Rightarrow> (case trig m of None \<Rightarrow> False | Some t \<Rightarrow> u \<le> t))"

definition rateLimitInvariant :: "LinkCostManager \<Rightarrow> bool" where
  "rateLimitInvariant s =
     (rebuildsSpaced (lsdbAdjLsaBuilds s) \<and> list_all (buildCoveredBy (lastTrigger s)) (lsdbAdjLsaBuilds s))"

text \<open>Scenarios of the adaptive calculator.\<close>

definition exampleWall :: WallClock where
  "exampleWall = \<lparr>tm_hour = 9, tm_min = 34\<rparr>"

definition trainedCalculator :: MLAdaptiveCalculator where
  "trainedCalculator = reportPathPerformance exampleWall (seconds 40) neighborA 1 (newMLAdaptiveCalculator 0)"

definition subMillisecondMetrics :: LinkMetrics where
  "subMillisecondMetrics =
     \<lparr>lm_neighbor = neighborA, lm_originalCost = 10, lm_currentCost = 10, lm_timeoutCount = 0,
      lm_lastSuccessTime = 0, lm_status = STATUS_ACTIVE, lm_rttHistory = [300000, 300000, 300000],
      lm_currentRtt = Some 300000\<rparr>"

definition calculatorAfterSubMillisecondRtts :: MLAdaptiveCalculator where
  "calculatorAfterSubMillisecondRtts =
     snd (predictLinkQuality exampleWall neighborA subMillisecondMetrics
       (snd (predictLinkQuality exampleWall neighborA subMillisecondMetrics
         (snd (predictLinkQuality exampleWall neighborA subMillisecondMetrics
           (newMLAdaptiveCalculator 0))))))"

definition throwingCalculator :: LoadAwareCostCalculator where
  "throwingCalculator n c metrics = Threw"

definition otherThrowingCalculator :: LoadAwareCostCalculator where
  "otherThrowingCalculator n c metrics = ThrewOther"

definition exampleExternal :: "name \<rightharpoonup> ExternalMetrics" where
  "exampleExternal =
     [neighborB \<mapsto> \<lparr>bandwidth_mbps = Some 100, utilization = Some (65 / 100),
                      packet_loss = Some (2 / 100), spectrum_dbm = Some (- 45)\<rparr>]"

section \<open>Evaluation facts\<close>

lemmas time_defs = seconds_def milliseconds_def minutes_def nanos_per_ms_def MIN_LSA_INTERVAL_def
  duration_cast_ms_def trunc_div_def

lemmas example_defs = exampleManager_def freshManager_def exampleConfig_def exampleAdjacent_def
  neighborA_def neighborB_def initialize_def getLinkCost_def setLinkCost_def

lemmas handler_defs = run_def start_def stop_def measurementTimerFired_def canMeasureNow_def
  performRttMeasurement_def scheduleRttMeasurement_def calculateSafeMeasurementTime_def
  onHelloTimeout_def handleRttResponse_def acceptRttSample_def addRttMeasurement_def isStable_def
  updateNeighborCost_def delegateCost_def changeTooSmall_def restoreOriginalCost_def
  MIN_SAMPLES_FOR_ML_FEEDBACK_def

section \<open>Stale probe results\<close>

lemma updateNeighborCost_pending:
  "m_pendingMeasurements (updateNeighborCost now n c s) = m_pendingMeasurements s"
  by (simp add: updateNeighborCost_def Let_def split: option.splits)

lemma acceptRttSample_pending:
  "m_pendingMeasurements (acceptRttSample cfg now n d ms s) = m_pendingMeasurements s"
  by (simp add: acceptRttSample_def Let_def updateNeighborCost_pending split: option.splits)

lemma handleRttResponse_pending:
  "m_pendingMeasurements (handleRttResponse cfg now n q t s) = (m_pendingMeasurements s)(q := None)"
  by (auto simp add: handleRttResponse_def Let_def acceptRttSample_pending split: option.splits)

lemma handleRttTimeout_pending:
  "m_pendingMeasurements (handleRttTimeout n q s) = (m_pendingMeasurements s)(q := None)"
  by (auto simp add: handleRttTimeout_def split: option.splits)

text \<open>
  C10. A probe response or a probe timeout whose sequence number is not in the
  pending-measurement map leaves the whole manager state as it is: every link state, the
  pending map and the adjacency list. Both handlers erase the entry they find, so a second
  response or timeout for the same sequence number, whatever its arguments, changes nothing
  any more: each outstanding probe is processed at most once.
\<close>

theorem stale_probe_result_no_effect:
  "(m_pendingMeasurements s q = None \<longrightarrow>
      handleRttResponse cfg now n q sendTime s = s \<and> handleRttTimeout n q s = s)
   \<and> handleRttResponse cfg now' n' q sendTime' (handleRttResponse cfg now n q sendTime s)
       = handleRttResponse cfg now n q sendTime s
   \<and> handleRttTimeout n' q (handleRttResponse cfg now n q sendTime s)
       = handleRttResponse cfg now n q sendTime s
   \<and> handleRttResponse cfg now' n' q sendTime' (handleRttTimeout n q s) = handleRttTimeout n q s
   \<and> handleRttTimeout n' q (handleRttTimeout n q s) = handleRttTimeout n q s"
proof -
  have stale: "\<And>c t m k u x. m_pendingMeasurements x q = None \<Longrightarrow>
      handleRttResponse c t m q u x = x \<and> handleRttTimeout k q x = x"
    by (simp add: handleRttResponse_def handleRttTimeout_def)
  have r: "m_pendingMeasurements (handleRttResponse cfg now n q sendTime s) q = None"
    by (simp add: handleRttResponse_pending)
  have t: "m_pendingMeasurements (handleRttTimeout n q s) q = None"
    by (simp add: handleRttTimeout_pending)
  show ?thesis using stale [OF r] stale [OF t] stale by blast
qed

theorem stale_probe_result_no_effect_witness:
  "m_pendingMeasurements exampleManager 7 = None
   \<and> handleRttResponse exampleConfig (seconds 50) neighborA 7 (seconds 49) exampleManager = exampleManager
   \<and> handleRttTimeout neighborA 7 exampleManager = exampleManager"
proof -
  have h: "m_pendingMeasurements exampleManager 7 = None"
    by (simp add: example_defs)
  show ?thesis
    using h stale_probe_result_no_effect
      [of exampleManager 7 exampleConfig "seconds 50" neighborA "seconds 49"]
    by blast
qed

section \<open>Hello timeouts and the pending-measurement map\<close>

text \<open>
  C2. A hello timeout with a count at the retry limit makes the neighbor INACTIVE and clears
  its history, but \<^verbatim>\<open>onHelloTimeout\<close> does not touch the pending-measurement map (the erase
  loop is in \<^verbatim>\<open>onNeighborStatusChanged\<close> only). In the run below the manager starts, probes
  neighbor A (sequence number 1), receives the answer after 20 ms, probes again (sequence
  number 2) and is told of the third hello timeout: A is INACTIVE with an empty history, and
  the pending entry 2 still names A.
\<close>

theorem onHelloTimeout_leaves_pending_probe:
  "(let s = run exampleConfig
       [(0, Start),
        (seconds 40, MeasurementTimer 0 neighborA),
        (seconds 40 + milliseconds 20, RttResponse neighborA 1 (seconds 40)),
        (seconds 80, MeasurementTimer 0 neighborA),
        (seconds 81, HelloTimeout neighborA 3)] exampleManager
    in map_option status (m_outgoingLinks s neighborA) = Some STATUS_INACTIVE
       \<and> map_option rttHistory (m_outgoingLinks s neighborA) = Some []
       \<and> m_pendingMeasurements s 2 = Some (neighborA, seconds 80))"
  by (simp add: handler_defs example_defs time_defs Let_def)

section \<open>Shutdown\<close>

text \<open>
  C3. \<^verbatim>\<open>stop\<close> on an active manager cancels the timers, empties the pending map, writes the
  original cost into the adjacency list and asks for one adjacency-LSA build, but it leaves
  the \<open>currentCost\<close> field of the link state as it was. In the run below the cost of
  neighbor A (configured cost 10) is raised to 26 and the manager is stopped: the adjacency
  list holds 10 again, the link state still holds 26.
\<close>

theorem stop_keeps_current_cost:
  "(let s = run exampleConfig
       [(0, Start), (seconds 20, CostUpdate neighborA 26), (seconds 25, Stop)] exampleManager
    in map_option a_linkCost (m_adjacencyList s neighborA) = Some 10
       \<and> map_option originalCost (m_outgoingLinks s neighborA) = Some 10
       \<and> map_option currentCost (m_outgoingLinks s neighborA) = Some 26
       \<and> m_pendingMeasurements s = Map.empty
       \<and> m_scheduler s WarmupDone = []
       \<and> \<not> m_isActive s
       \<and> lsdbAdjLsaBuilds s = [StopBuild, CostUpdateBuild neighborA (seconds 20)])"
  by (simp add: handler_defs example_defs time_defs Let_def)

section \<open>Range check of a measured round-trip time\<close>

lemma large_rtt_discarded:
  assumes "m_pendingMeasurements s q = Some e" "5000 < duration_cast_ms (now - sendTime)"
  shows "handleRttResponse cfg now n q sendTime s
         = s\<lparr>m_pendingMeasurements := (m_pendingMeasurements s)(q := None),
              m_successfulMeasurements := m_successfulMeasurements s + 1\<rparr>"
  using assms by (simp add: handleRttResponse_def Let_def)

text \<open>
  C5. For a response that arrives less than one millisecond after the probe,
  \<^verbatim>\<open>handleRttResponse\<close> sets its local millisecond count to 1 and goes on, but the sample it
  appends is the measured duration: in the run below the probe is answered after 0.4 ms and
  the history holds 400000 ns, not the 1000000 ns of one millisecond.
\<close>

theorem sub_millisecond_sample_stored_unclamped:
  "(let s = run exampleConfig
       [(0, Start),
        (seconds 40, MeasurementTimer 0 neighborA),
        (seconds 40 + 400000, RttResponse neighborA 1 (seconds 40))] exampleManager
    in map_option (map rtt \<circ> rttHistory) (m_outgoingLinks s neighborA) = Some [400000]
       \<and> milliseconds 1 = 1000000)"
  by (simp add: handler_defs example_defs time_defs Let_def)

section \<open>The RTT-based cost\<close>

lemma ln5_upper: "ln (5::real) < 165 / 100"
proof -
  have "(5::real) < (1 + (165 / 100) / of_nat 64) ^ 64" by (simp add: power_divide)
  also have "\<dots> \<le> exp (165 / 100)"
    by (rule exp_ge_one_plus_x_over_n_power_n) simp_all
  finally have "exp (ln 5) < exp (165 / 100 :: real)" by simp
  then show ?thesis by (simp only: exp_less_cancel_iff)
qed

lemma ln5_lower: "155 / 100 < ln (5::real)"
proof -
  have "(1 / 5::real) < (1 - (155 / 100) / of_nat 64) ^ 64" by (simp add: power_divide)
  also have "\<dots> \<le> exp (- (155 / 100))"
    by (rule exp_ge_one_minus_x_over_n_power_n) simp_all
  finally have "1 / 5 < 1 / exp (155 / 100 :: real)" by (simp add: exp_minus field_simps)
  then have "exp (155 / 100 :: real) < 5" by (simp add: field_simps)
  then have "exp (155 / 100 :: real) < exp (ln 5)" by simp
  then show ?thesis by (simp only: exp_less_cancel_iff)
qed

lemma std_round_between:
  "0 \<le> x \<Longrightarrow> of_int k - 1 / 2 \<le> x \<Longrightarrow> x < of_int k + 1 / 2 \<Longrightarrow> std_round x = of_int k"
  unfolding std_round_def by (simp, linarith)

lemma trunc_div_truncateReal:
  assumes "0 < b"
  shows "trunc_div a b = truncateReal (real_of_int a / real_of_int b)"
proof (cases "0 \<le> a")
  case True
  then have "0 \<le> real_of_int a / real_of_int b" using assms by simp
  then show ?thesis using True assms
    by (cases "a = 0") (simp_all add: trunc_div_def truncateReal_def floor_divide_of_int_eq)
next
  case False
  then have neg: "a < 0" by simp
  then have "real_of_int a / real_of_int b < 0" using assms by (simp add: divide_neg_pos)
  moreover have "\<lceil>real_of_int a / real_of_int b\<rceil> = - ((- a) div b)"
  proof -
    have "\<lceil>real_of_int a / real_of_int b\<rceil> = - \<lfloor>real_of_int (- a) / real_of_int b\<rfloor>"
      by (simp add: ceiling_def)
    then show ?thesis by (simp only: floor_divide_of_int_eq)
  qed
  ultimately show ?thesis using neg assms by (simp add: trunc_div_def truncateReal_def)
qed

lemma trunc_div_twice:
  assumes "0 < n" "0 < m"
  shows "trunc_div (trunc_div a n) m = trunc_div a (n * m)"
proof -
  have nn: "\<And>x::int. 0 \<le> x \<Longrightarrow> trunc_div x n = x div n \<and> trunc_div x m = x div m
      \<and> trunc_div x (n * m) = x div (n * m)"
    using assms by (auto simp add: trunc_div_def sgn_if)
  have ng: "\<And>x::int. x < 0 \<Longrightarrow> trunc_div x n = - ((- x) div n) \<and> trunc_div x m = - ((- x) div m)
      \<and> trunc_div x (n * m) = - ((- x) div (n * m))"
    using assms by (auto simp add: trunc_div_def sgn_if)
  show ?thesis
  proof (cases "0 \<le> a")
    case True
    then have "0 \<le> a div n" using assms by (simp add: pos_imp_zdiv_nonneg_iff)
    then show ?thesis using True nn assms by (simp add: zdiv_zmult2_eq)
  next
    case False
    then have a: "a < 0" by simp
    have p: "0 \<le> (- a) div n" using a assms by (simp add: pos_imp_zdiv_nonneg_iff)
    show ?thesis
    proof (cases "(- a) div n = 0")
      case True
      then have "(- a) div (n * m) = 0" using assms by (simp add: zdiv_zmult2_eq)
      then show ?thesis using True a ng [OF a] nn [of 0] by simp
    next
      case False
      then have "- ((- a) div n) < 0" using p by simp
      from ng [OF this] ng [OF a] show ?thesis using assms by (simp add: zdiv_zmult2_eq)
    qed
  qed
qed

lemma average_ms_truncated_mean:
  assumes "rttHistory ls \<noteq> []"
  shows "duration_cast_ms (getAverageRtt ls) = truncateReal (meanRttMs (rttHistory ls))"
proof -
  let ?S = "sum_list (map rtt (rttHistory ls))"
  let ?n = "int (length (rttHistory ls))"
  have n: "0 < ?n" using assms by simp
  have "duration_cast_ms (getAverageRtt ls) = trunc_div ?S (?n * 1000000)"
    using assms n by (simp add: duration_cast_ms_def getAverageRtt_def nanos_per_ms_def trunc_div_twice)
  also have "\<dots> = truncateReal (real_of_int ?S / real_of_int (?n * 1000000))"
    by (rule trunc_div_truncateReal) (use n in simp)
  also have "real_of_int ?S / real_of_int (?n * 1000000) = meanRttMs (rttHistory ls)"
    by (simp add: meanRttMs_def)
  finally show ?thesis .
qed

lemma example_400: "std_round (min (10 * (1 + ln (5::real))) 50) = 26"
proof -
  have a: "10 * (1 + ln (5::real)) < 50" using ln5_upper by simp
  have "std_round (10 * (1 + ln (5::real))) = of_int 26"
    by (rule std_round_between) (use ln5_upper ln5_lower in simp_all)
  then show ?thesis using a by (simp add: min_def)
qed

lemmas store_defs = withHistory_def sampleOf_def example_defs

lemma calculateNewCost_example:
  "calculateNewCost exampleConfig neighborA
     (withHistory neighborA [sampleOf 400, sampleOf 400, sampleOf 400] exampleManager) = 26"
proof -
  have "calculateNewCost exampleConfig neighborA
     (withHistory neighborA [sampleOf 400, sampleOf 400, sampleOf 400] exampleManager)
     = std_round (min (10 * (1 + ln (5::real))) 50)"
    by (simp add: calculateNewCost_def getAverageRtt_def store_defs time_defs Let_def)
  then show ?thesis by (simp only: example_400)
qed

text \<open>
  C1. For a neighbor that is present and ACTIVE with a non-empty history, \<^verbatim>\<open>calculateNewCost\<close>
  returns \<open>round (min (original_cost * (1 + ln (1 + avg_ms / 100))) (original_cost * max_multiplier))\<close>,
  where \<open>avg_ms\<close> is the mean of the history in milliseconds cut to a whole number of
  milliseconds (the source takes the integer count of \<^verbatim>\<open>duration_cast<milliseconds>\<close>). With an
  empty history the result is the original cost; for an absent or INACTIVE neighbor it is \<open>-1\<close>.
  With original cost 10, multiplier 5 and three samples of 400 ms the result is 26.
\<close>

theorem calculateNewCost_formula:
  "(\<forall>ls. m_outgoingLinks s n = Some ls \<and> status ls = STATUS_ACTIVE \<and> rttHistory ls \<noteq> [] \<longrightarrow>
      calculateNewCost cfg n s =
        std_round (min (real (originalCost ls)
                          * (1 + ln (1 + real_of_int (truncateReal (meanRttMs (rttHistory ls))) / 100)))
                       (real (originalCost ls) * maxCostMultiplier cfg)))
   \<and> (\<forall>ls. m_outgoingLinks s n = Some ls \<and> status ls = STATUS_ACTIVE \<and> rttHistory ls = [] \<longrightarrow>
        calculateNewCost cfg n s = real (originalCost ls))
   \<and> (m_outgoingLinks s n = None \<longrightarrow> calculateNewCost cfg n s = - 1)
   \<and> (\<forall>ls. m_outgoingLinks s n = Some ls \<and> status ls = STATUS_INACTIVE \<longrightarrow>
        calculateNewCost cfg n s = - 1)
   \<and> calculateNewCost exampleConfig neighborA
        (withHistory neighborA [sampleOf 400, sampleOf 400, sampleOf 400] exampleManager) = 26"
  using calculateNewCost_example
  by (auto simp add: calculateNewCost_def Let_def average_ms_truncated_mean)

theorem calculateNewCost_formula_witness:
  "(let s = withHistory neighborA [sampleOf 5, sampleOf 6] exampleManager;
        h = [sampleOf 5, sampleOf 6]
    in map_option status (m_outgoingLinks s neighborA) = Some STATUS_ACTIVE
       \<and> map_option rttHistory (m_outgoingLinks s neighborA) = Some h
       \<and> truncateReal (meanRttMs h) = 5
       \<and> calculateNewCost exampleConfig neighborA s
           = std_round (min (10 * (1 + ln (1 + 5 / 100))) (10 * 5)))"
proof -
  let ?s = "withHistory neighborA [sampleOf 5, sampleOf 6] exampleManager"
  let ?ls = "\<lparr>status = STATUS_ACTIVE, originalCost = 10, currentCost = 10,
              rttHistory = [sampleOf 5, sampleOf 6], timeoutCount = 0, lastSuccess = 0,
              lastLsaTriggerTime = 0\<rparr>"
  have l: "m_outgoingLinks ?s neighborA = Some ?ls"
    by (simp add: store_defs)
  have t: "truncateReal (meanRttMs [sampleOf 5, sampleOf 6]) = 5"
    by (simp add: truncateReal_def meanRttMs_def sampleOf_def time_defs)
  from calculateNewCost_formula [of ?s neighborA exampleConfig] l
  have "calculateNewCost exampleConfig neighborA ?s =
        std_round (min (real (originalCost ?ls)
                          * (1 + ln (1 + real_of_int (truncateReal (meanRttMs (rttHistory ?ls))) / 100)))
                       (real (originalCost ?ls) * maxCostMultiplier exampleConfig))"
    by simp
  then show ?thesis using l t by (simp add: exampleConfig_def Let_def)
qed

text \<open>
  With the mean itself in place of its whole-millisecond count the formula gives another
  cost: for the samples 5 ms and 6 ms (mean 5.5 ms) and original cost 10 the source returns 10,
  the formula on 5.5 gives 11.
\<close>

theorem calculateNewCost_fractional_mean_counterexample:
  "(let h = [sampleOf 5, sampleOf 6];
        s = withHistory neighborA h exampleManager
    in meanRttMs h = 11 / 2
       \<and> calculateNewCost exampleConfig neighborA s = 10
       \<and> std_round (min (10 * (1 + ln (1 + meanRttMs h / 100))) (10 * maxCostMultiplier exampleConfig)) = 11)"
proof -
  have m: "meanRttMs [sampleOf 5, sampleOf 6] = 11 / 2"
    by (simp add: meanRttMs_def sampleOf_def time_defs)
  have c: "calculateNewCost exampleConfig neighborA
             (withHistory neighborA [sampleOf 5, sampleOf 6] exampleManager)
           = std_round (min (10 * (1 + ln (21 / 20))) 50)"
    by (simp add: calculateNewCost_def getAverageRtt_def store_defs time_defs Let_def)
  have u1: "ln (1 + 1 / 20 :: real) < 1 / 20" by (rule ln_add_one_self_less_self) simp
  have l1: "0 \<le> ln (21 / 20 :: real)" by simp
  have r1: "std_round (10 * (1 + ln (21 / 20 :: real))) = of_int 10"
    by (rule std_round_between) (use u1 l1 in simp_all)
  have c': "calculateNewCost exampleConfig neighborA
             (withHistory neighborA [sampleOf 5, sampleOf 6] exampleManager) = 10"
    using c r1 u1 by (simp add: min_def)
  have u2: "ln (1 + 11 / 200 :: real) < 11 / 200" by (rule ln_add_one_self_less_self) simp
  have l2: "11 / 200 - (11 / 200)\<^sup>2 \<le> ln (1 + 11 / 200 :: real)"
    by (rule ln_one_plus_pos_lower_bound) simp_all
  have l2': "1 / 20 \<le> ln (211 / 200 :: real)" using l2 by (simp add: power2_eq_square)
  have r2: "std_round (10 * (1 + ln (211 / 200 :: real))) = of_int 11"
    by (rule std_round_between) (use u2 l2' in simp_all)
  have f: "std_round (min (10 * (1 + ln (1 + (11 / 2) / 100 :: real))) (10 * 5)) = 11"
    using r2 u2 by (simp add: min_def)
  show ?thesis unfolding Let_def m using c' f by (simp add: exampleConfig_def)
qed

section \<open>The rebuild-rate limiter\<close>

lemma scheduleRttMeasurement_quiet:
  "lastTrigger (scheduleRttMeasurement cfg now rnd n s) = lastTrigger s
   \<and> lsdbAdjLsaBuilds (scheduleRttMeasurement cfg now rnd n s) = lsdbAdjLsaBuilds s"
  by (simp add: scheduleRttMeasurement_def lastTrigger_def Let_def fun_eq_iff)

lemma onHelloDataReceived_quiet:
  "lastTrigger (onHelloDataReceived cfg now rnd n s) = lastTrigger s
   \<and> lsdbAdjLsaBuilds (onHelloDataReceived cfg now rnd n s) = lsdbAdjLsaBuilds s"
  by (auto simp add: onHelloDataReceived_def scheduleRttMeasurement_quiet Let_def lastTrigger_def fun_eq_iff
      scheduleRttMeasurement_def split: option.splits)

lemma onHelloTimeout_quiet:
  "lastTrigger (onHelloTimeout cfg n k s) = lastTrigger s
   \<and> lsdbAdjLsaBuilds (onHelloTimeout cfg n k s) = lsdbAdjLsaBuilds s"
  by (auto simp add: onHelloTimeout_def Let_def lastTrigger_def fun_eq_iff split: option.splits)

lemma onNeighborStatusChanged_quiet:
  "lastTrigger (onNeighborStatusChanged cfg now rnd n st s) = lastTrigger s
   \<and> lsdbAdjLsaBuilds (onNeighborStatusChanged cfg now rnd n st s) = lsdbAdjLsaBuilds s"
  by (auto simp add: onNeighborStatusChanged_def Let_def lastTrigger_def fun_eq_iff
      scheduleRttMeasurement_def split: option.splits)

lemma handleRttTimeout_quiet:
  "lastTrigger (handleRttTimeout n q s) = lastTrigger s
   \<and> lsdbAdjLsaBuilds (handleRttTimeout n q s) = lsdbAdjLsaBuilds s"
  by (auto simp add: handleRttTimeout_def lastTrigger_def fun_eq_iff split: option.splits)

lemma measurementTimerFired_quiet:
  "lastTrigger (measurementTimerFired cfg now rnd n s) = lastTrigger s
   \<and> lsdbAdjLsaBuilds (measurementTimerFired cfg now rnd n s) = lsdbAdjLsaBuilds s"
  by (simp add: measurementTimerFired_def performRttMeasurement_def
      lastTrigger_def Let_def scheduleRttMeasurement_def fun_eq_iff)

lemma misc_quiet:
  "lastTrigger (start now s) = lastTrigger s \<and> lsdbAdjLsaBuilds (start now s) = lsdbAdjLsaBuilds s"
  "lastTrigger (generateStatusReport now s) = lastTrigger s
   \<and> lsdbAdjLsaBuilds (generateStatusReport now s) = lsdbAdjLsaBuilds s"
  "lastTrigger (warmupTimerFired cfg now rnds s) = lastTrigger s
   \<and> lsdbAdjLsaBuilds (warmupTimerFired cfg now rnds s) = lsdbAdjLsaBuilds s"
  "lastTrigger (setLoadAwareCostCalculator f s) = lastTrigger s
   \<and> lsdbAdjLsaBuilds (setLoadAwareCostCalculator f s) = lsdbAdjLsaBuilds s"
  "lastTrigger (clearLoadAwareCostCalculator s) = lastTrigger s
   \<and> lsdbAdjLsaBuilds (clearLoadAwareCostCalculator s) = lsdbAdjLsaBuilds s"
  "lastTrigger (setMLFeedbackCallback s) = lastTrigger s
   \<and> lsdbAdjLsaBuilds (setMLFeedbackCallback s) = lsdbAdjLsaBuilds s"
  "lastTrigger (clearMLFeedbackCallback s) = lastTrigger s
   \<and> lsdbAdjLsaBuilds (clearMLFeedbackCallback s) = lsdbAdjLsaBuilds s"
  "lastTrigger (onHelloInterestSent n s) = lastTrigger s
   \<and> lsdbAdjLsaBuilds (onHelloInterestSent n s) = lsdbAdjLsaBuilds s"
  by (simp_all add: start_def generateStatusReport_def warmupTimerFired_def
      setLoadAwareCostCalculator_def clearLoadAwareCostCalculator_def setMLFeedbackCallback_def
      clearMLFeedbackCallback_def onHelloInterestSent_def lastTrigger_def fun_eq_iff)

lemma stop_effect:
  "lastTrigger (stop s) = lastTrigger s
   \<and> (lsdbAdjLsaBuilds (stop s) = lsdbAdjLsaBuilds s
        \<or> lsdbAdjLsaBuilds (stop s) = StopBuild # lsdbAdjLsaBuilds s)"
  by (simp add: stop_def lastTrigger_def fun_eq_iff)

lemma covered_far_enough:
  assumes "list_all (buildCoveredBy trig) rs" "trig n = Some t" "seconds 10 \<le> now - t"
  shows "list_all (earlierBuildFarEnough n now) rs"
  using assms
  by (induction rs) (auto simp add: buildCoveredBy_def earlierBuildFarEnough_def split: BuildRequest.splits option.splits)

lemma covered_advance:
  assumes "list_all (buildCoveredBy trig) rs" "trig n = Some t" "t \<le> t'"
  shows "list_all (buildCoveredBy (trig(n := Some t'))) rs"
  using assms
  by (induction rs) (auto simp add: buildCoveredBy_def split: BuildRequest.splits option.splits)

lemma updateNeighborCost_cases:
  "(lastTrigger (updateNeighborCost now n c s) = lastTrigger s
      \<and> lsdbAdjLsaBuilds (updateNeighborCost now n c s) = lsdbAdjLsaBuilds s)
   \<or> (\<exists>t. lastTrigger s n = Some t \<and> seconds 10 \<le> now - t
        \<and> lastTrigger (updateNeighborCost now n c s) = (lastTrigger s)(n := Some now)
        \<and> (lsdbAdjLsaBuilds (updateNeighborCost now n c s) = lsdbAdjLsaBuilds s
             \<or> lsdbAdjLsaBuilds (updateNeighborCost now n c s) = CostUpdateBuild n now # lsdbAdjLsaBuilds s))"
  by (auto simp add: updateNeighborCost_def Let_def lastTrigger_def fun_eq_iff MIN_LSA_INTERVAL_def
      split: option.splits)

lemma updateNeighborCost_invariant:
  assumes "rateLimitInvariant s"
  shows "rateLimitInvariant (updateNeighborCost now n c s)"
proof -
  let ?s' = "updateNeighborCost now n c s"
  from assms have sp: "rebuildsSpaced (lsdbAdjLsaBuilds s)"
    and cov: "list_all (buildCoveredBy (lastTrigger s)) (lsdbAdjLsaBuilds s)"
    by (simp_all add: rateLimitInvariant_def)
  from updateNeighborCost_cases [of now n c s] show ?thesis
  proof (elim disjE exE conjE)
    assume "lastTrigger ?s' = lastTrigger s" "lsdbAdjLsaBuilds ?s' = lsdbAdjLsaBuilds s"
    then show ?thesis using assms by (simp add: rateLimitInvariant_def)
  next
    fix t
    assume t: "lastTrigger s n = Some t" "seconds 10 \<le> now - t"
      and tr: "lastTrigger ?s' = (lastTrigger s)(n := Some now)"
      and lg: "lsdbAdjLsaBuilds ?s' = lsdbAdjLsaBuilds s"
    have "t \<le> now" using t(2) by (simp add: seconds_def nanos_per_ms_def)
    from covered_advance [OF cov t(1) this] show ?thesis
      using sp tr lg by (simp add: rateLimitInvariant_def)
  next
    fix t
    assume t: "lastTrigger s n = Some t" "seconds 10 \<le> now - t"
      and tr: "lastTrigger ?s' = (lastTrigger s)(n := Some now)"
      and lg: "lsdbAdjLsaBuilds ?s' = CostUpdateBuild n now # lsdbAdjLsaBuilds s"
    have le: "t \<le> now" using t(2) by (simp add: seconds_def nanos_per_ms_def)
    from covered_advance [OF cov t(1) le] covered_far_enough [OF cov t] show ?thesis
      using sp tr lg by (simp add: rateLimitInvariant_def buildCoveredBy_def)
  qed
qed

lemma invariant_transfer:
  assumes "rateLimitInvariant s" "lastTrigger s' = lastTrigger s" "lsdbAdjLsaBuilds s' = lsdbAdjLsaBuilds s"
  shows "rateLimitInvariant s'"
  using assms by (simp add: rateLimitInvariant_def)

lemma acceptRttSample_invariant:
  assumes "rateLimitInvariant s"
  shows "rateLimitInvariant (acceptRttSample cfg now n d ms s)"
proof (cases "m_outgoingLinks s n")
  case None
  then show ?thesis using assms by (simp add: acceptRttSample_def)
next
  case (Some ls0)
  let ?ls1 = "addRttMeasurement (rttHistoryCapacity cfg) d now ls0"
  let ?s1 = "s\<lparr>m_outgoingLinks := (m_outgoingLinks s)(n \<mapsto> ?ls1)\<rparr>"
  let ?s2 = "(if m_mlFeedbackCallback ?s1 \<and> MIN_SAMPLES_FOR_ML_FEEDBACK \<le> length (rttHistory ?ls1)
              then ?s1\<lparr>mlFeedbackSent := mlFeedbackSent ?s1 @
                        [(n, calculateRealTimePerformance n d ?s1)]\<rparr>
              else ?s1)"
  have "lastTrigger ?s2 = lastTrigger s" "lsdbAdjLsaBuilds ?s2 = lsdbAdjLsaBuilds s"
    using Some by (auto simp add: lastTrigger_def addRttMeasurement_def Let_def fun_eq_iff)
  from invariant_transfer [OF assms this] have i2: "rateLimitInvariant ?s2" .
  show ?thesis
    using Some i2 updateNeighborCost_invariant [OF i2] assms
    by (simp add: acceptRttSample_def Let_def)
qed

lemma handleRttResponse_invariant:
  assumes "rateLimitInvariant s"
  shows "rateLimitInvariant (handleRttResponse cfg now n q t s)"
proof (cases "m_pendingMeasurements s q")
  case None
  then show ?thesis using assms by (simp add: handleRttResponse_def)
next
  case (Some e)
  let ?s1 = "s\<lparr>m_pendingMeasurements := (m_pendingMeasurements s)(q := None),
               m_successfulMeasurements := m_successfulMeasurements s + 1\<rparr>"
  have "lastTrigger ?s1 = lastTrigger s" by (simp add: lastTrigger_def fun_eq_iff)
  then have "rateLimitInvariant ?s1" using assms by (simp add: rateLimitInvariant_def)
  then show ?thesis using Some acceptRttSample_invariant [of ?s1]
    by (simp add: handleRttResponse_def Let_def)
qed

lemma step_invariant:
  assumes "rateLimitInvariant s"
  shows "rateLimitInvariant (step cfg s e)"
proof (cases e)
  case (Pair now ev)
  show ?thesis
  proof (cases ev)
    case Stop
    then show ?thesis using Pair assms stop_effect [of s]
      by (auto simp add: rateLimitInvariant_def buildCoveredBy_def)
  qed (use Pair assms in \<open>simp_all add: handleRttResponse_invariant updateNeighborCost_invariant
        invariant_transfer [OF assms] onHelloDataReceived_quiet onHelloTimeout_quiet
        onNeighborStatusChanged_quiet handleRttTimeout_quiet measurementTimerFired_quiet misc_quiet\<close>)
qed

lemma run_invariant:
  "rateLimitInvariant s \<Longrightarrow> rateLimitInvariant (run cfg events s)"
  unfolding run_def by (induction events arbitrary: s) (simp_all add: step_invariant)

lemma updateNeighborCost_limited:
  assumes "m_outgoingLinks s n = Some ls" "now - lastLsaTriggerTime ls < seconds 10"
  shows "lsdbAdjLsaBuilds (updateNeighborCost now n c s) = lsdbAdjLsaBuilds s
         \<and> routingTableCalculations (updateNeighborCost now n c s) = routingTableCalculations s
         \<and> lastTrigger (updateNeighborCost now n c s) n = Some (lastLsaTriggerTime ls)"
  using assms
  by (simp add: updateNeighborCost_def Let_def lastTrigger_def MIN_LSA_INTERVAL_def split: option.splits)

lemma updateNeighborCost_limited_cost:
  assumes "m_outgoingLinks s n = Some ls" "m_adjacencyList s n = Some a"
    "status ls \<noteq> STATUS_INACTIVE" "delegateCost n c s = Some final"
    "\<not> changeTooSmall final (getLinkCost a)"
    "now - lastLsaTriggerTime ls < seconds 10"
  shows "map_option currentCost (m_outgoingLinks (updateNeighborCost now n c s) n) = Some final
         \<and> map_option getLinkCost (m_adjacencyList (updateNeighborCost now n c s) n) = Some final"
  using assms
  by (simp add: updateNeighborCost_def Let_def MIN_LSA_INTERVAL_def getLinkCost_def setLinkCost_def)

lemma updateNeighborCost_build:
  assumes "lsdbAdjLsaBuilds (updateNeighborCost now n c s) \<noteq> lsdbAdjLsaBuilds s"
  shows "\<exists>ls. m_outgoingLinks s n = Some ls \<and> timeoutCount ls = 0
           \<and> seconds 10 \<le> now - lastLsaTriggerTime ls
           \<and> lsdbAdjLsaBuilds (updateNeighborCost now n c s) = CostUpdateBuild n now # lsdbAdjLsaBuilds s"
  using assms
  by (auto simp add: updateNeighborCost_def Let_def MIN_LSA_INTERVAL_def split: option.splits if_splits)

text \<open>
  C4. In every execution of \<^verbatim>\<open>updateNeighborCost\<close> for a neighbor whose last rebuild trigger
  is less than 10 s old, no adjacency-LSA build and no routing-table calculation is requested
  and \<open>lastLsaTriggerTime\<close> stays as it is; when the update passes the guards before the
  limiter (adjacency and link state found, neighbor not INACTIVE, no uncaught exception from
  the calculator, change of at least 5%), the
  new cost is written to the link state and to the adjacency slot all the same. A build is
  requested only for a neighbor whose timeout count is 0 and whose last trigger is at least
  10 s old. Hence, from a state with an empty request log and along any sequence of events,
  any two cost-update build requests for the same neighbor are at least 10 s apart.
\<close>

theorem rebuild_rate_limit:
  "(\<forall>ls. m_outgoingLinks s n = Some ls \<and> now - lastLsaTriggerTime ls < seconds 10 \<longrightarrow>
       lsdbAdjLsaBuilds (updateNeighborCost now n c s) = lsdbAdjLsaBuilds s
       \<and> routingTableCalculations (updateNeighborCost now n c s) = routingTableCalculations s
       \<and> lastTrigger (updateNeighborCost now n c s) n = Some (lastLsaTriggerTime ls))
   \<and> (\<forall>ls a final. m_outgoingLinks s n = Some ls \<and> m_adjacencyList s n = Some a
         \<and> status ls \<noteq> STATUS_INACTIVE \<and> delegateCost n c s = Some final
         \<and> \<not> changeTooSmall final (getLinkCost a)
         \<and> now - lastLsaTriggerTime ls < seconds 10 \<longrightarrow>
       map_option currentCost (m_outgoingLinks (updateNeighborCost now n c s) n) = Some final
       \<and> map_option getLinkCost (m_adjacencyList (updateNeighborCost now n c s) n) = Some final)
   \<and> (lsdbAdjLsaBuilds (updateNeighborCost now n c s) \<noteq> lsdbAdjLsaBuilds s \<longrightarrow>
       (\<exists>ls. m_outgoingLinks s n = Some ls \<and> timeoutCount ls = 0
           \<and> seconds 10 \<le> now - lastLsaTriggerTime ls
           \<and> lsdbAdjLsaBuilds (updateNeighborCost now n c s) = CostUpdateBuild n now # lsdbAdjLsaBuilds s))
   \<and> (lsdbAdjLsaBuilds s0 = [] \<longrightarrow> rebuildsSpaced (lsdbAdjLsaBuilds (run cfg events s0)))"
proof -
  have "lsdbAdjLsaBuilds s0 = [] \<Longrightarrow> rebuildsSpaced (lsdbAdjLsaBuilds (run cfg events s0))"
  proof -
    assume "lsdbAdjLsaBuilds s0 = []"
    then have "rateLimitInvariant s0" by (simp add: rateLimitInvariant_def)
    from run_invariant [OF this] show ?thesis by (simp add: rateLimitInvariant_def)
  qed
  then show ?thesis
    using updateNeighborCost_limited updateNeighborCost_limited_cost updateNeighborCost_build
    by blast
qed

theorem rebuild_rate_limit_witness:
  "(let s1 = run exampleConfig [(0, Start), (seconds 20, CostUpdate neighborA 26)] exampleManager;
        s2 = updateNeighborCost (seconds 25) neighborA 40 s1
    in lastTrigger s1 neighborA = Some (seconds 20)
       \<and> seconds 25 - seconds 20 < seconds 10
       \<and> lsdbAdjLsaBuilds s1 = [CostUpdateBuild neighborA (seconds 20)]
       \<and> lsdbAdjLsaBuilds s2 = lsdbAdjLsaBuilds s1
       \<and> lastTrigger s2 neighborA = Some (seconds 20)
       \<and> map_option currentCost (m_outgoingLinks s2 neighborA) = Some 40
       \<and> lsdbAdjLsaBuilds exampleManager = []
       \<and> lsdbAdjLsaBuilds (run exampleConfig
            [(0, Start), (seconds 20, CostUpdate neighborA 26), (seconds 25, CostUpdate neighborA 40),
             (seconds 31, CostUpdate neighborA 12)] exampleManager)
          = [CostUpdateBuild neighborA (seconds 31), CostUpdateBuild neighborA (seconds 20)]
       \<and> rebuildsSpaced (lsdbAdjLsaBuilds (run exampleConfig
            [(0, Start), (seconds 20, CostUpdate neighborA 26), (seconds 25, CostUpdate neighborA 40),
             (seconds 31, CostUpdate neighborA 12)] exampleManager)))"
proof -
  let ?s1 = "run exampleConfig [(0, Start), (seconds 20, CostUpdate neighborA 26)] exampleManager"
  let ?ls = "\<lparr>status = STATUS_ACTIVE, originalCost = 10, currentCost = 26, rttHistory = [],
              timeoutCount = 0, lastSuccess = 0, lastLsaTriggerTime = seconds 20\<rparr>"
  let ?a = "\<lparr>a_status = STATUS_ACTIVE, a_originalLinkCost = 10, a_linkCost = 26,
             a_interestTimedOutNo = 0\<rparr>"
  let ?evs = "[(0, Start), (seconds 20, CostUpdate neighborA 26), (seconds 25, CostUpdate neighborA 40),
             (seconds 31, CostUpdate neighborA 12)]"
  have l: "m_outgoingLinks ?s1 neighborA = Some ?ls"
    by (simp add: handler_defs example_defs time_defs Let_def)
  have a: "m_adjacencyList ?s1 neighborA = Some ?a"
    by (simp add: handler_defs example_defs time_defs Let_def)
  have g: "lsdbAdjLsaBuilds ?s1 = [CostUpdateBuild neighborA (seconds 20)]"
    by (simp add: handler_defs example_defs time_defs Let_def)
  have d: "delegateCost neighborA 40 ?s1 = Some 40"
    by (simp add: handler_defs example_defs time_defs Let_def)
  have t: "seconds 25 - lastLsaTriggerTime ?ls < seconds 10" by (simp add: time_defs)
  have c: "\<not> changeTooSmall 40 (getLinkCost ?a)"
    by (simp add: changeTooSmall_def getLinkCost_def)
  have e: "lsdbAdjLsaBuilds exampleManager = []" by (simp add: example_defs)
  have r: "lsdbAdjLsaBuilds (run exampleConfig ?evs exampleManager)
          = [CostUpdateBuild neighborA (seconds 31), CostUpdateBuild neighborA (seconds 20)]"
    by (simp add: handler_defs example_defs time_defs Let_def)
  note inst = rebuild_rate_limit [of ?s1 neighborA "seconds 25" 40 exampleManager exampleConfig ?evs]
  from inst l t have 1: "lsdbAdjLsaBuilds (updateNeighborCost (seconds 25) neighborA 40 ?s1) = lsdbAdjLsaBuilds ?s1
      \<and> lastTrigger (updateNeighborCost (seconds 25) neighborA 40 ?s1) neighborA = Some (seconds 20)"
    by simp
  have st: "status ?ls \<noteq> STATUS_INACTIVE" by simp
  from inst have "m_outgoingLinks ?s1 neighborA = Some ?ls \<and> m_adjacencyList ?s1 neighborA = Some ?a
         \<and> status ?ls \<noteq> STATUS_INACTIVE \<and> delegateCost neighborA 40 ?s1 = Some 40
         \<and> \<not> changeTooSmall 40 (getLinkCost ?a)
         \<and> seconds 25 - lastLsaTriggerTime ?ls < seconds 10 \<longrightarrow>
       map_option currentCost (m_outgoingLinks (updateNeighborCost (seconds 25) neighborA 40 ?s1) neighborA) = Some 40"
    by blast
  then have 2: "map_option currentCost
      (m_outgoingLinks (updateNeighborCost (seconds 25) neighborA 40 ?s1) neighborA) = Some 40"
    using l a st d c t by blast
  from inst e have 3: "rebuildsSpaced (lsdbAdjLsaBuilds (run exampleConfig ?evs exampleManager))"
    by blast
  have 4: "lastTrigger ?s1 neighborA = Some (seconds 20)" using l by (simp add: lastTrigger_def)
  have 5: "seconds 25 - seconds 20 < seconds 10" by (simp add: time_defs)
  show ?thesis unfolding Let_def using 1 2 3 4 5 g e r by simp
qed

section \<open>The adaptive calculator: prediction\<close>

lemma foldl_weighted:
  "foldl (\<lambda>acc p. acc + fst p * snd p) b ps = b + sum_list (map (\<lambda>p. fst p * snd p) ps)"
  for b :: real
  by (induction ps arbitrary: b) simp_all

lemma weightedSum_sum:
  "weightedSum b ws xs = b + sum_list (map (\<lambda>p. fst p * snd p) (zip ws xs))"
  by (simp add: weightedSum_def foldl_weighted)

lemma predict_range: "0 < predict m xs \<and> predict m xs < 1"
proof -
  let ?e = "exp (- weightedSum (m_bias m) (m_weights m) xs)"
  have e: "0 < ?e" by simp
  have p: "0 < 1 + ?e" using e by linarith
  have l: "0 < 1 / (1 + ?e)" using p by simp
  have "1 < 1 + ?e" using e by linarith
  then have u: "1 / (1 + ?e) < 1" using p by (simp only: divide_less_eq_1_pos)
  show ?thesis unfolding predict_def using l u by blast
qed

lemma predictWithFixedWeights_four:
  "predictWithFixedWeights (a # b # c # d # rest)
     = max 0 (min ((4 / 10) * a + (3 / 10) * b + (2 / 10) * c + (1 / 10) * d) 1)"
  by (simp add: predictWithFixedWeights_def weightedSum_def FIXED_WEIGHTS_def)

lemmas ml_defs = newMLAdaptiveCalculator_def newLinearRegressionModel_def FEATURE_COUNT_def
  extractCoreFeatures_def calculateRttTrend_def calculateRttVariationCoefficient_def
  calculateSuccessRate_def calculateLoadIndicator_def getTimeFeature_def currentTimeSlot_def
  getTimeSlotKey_def exampleWall_def updatePattern_def MAX_RTT_HISTORY_def
  MAX_PERFORMANCE_HISTORY_def MIN_UPDATE_INTERVAL_def clampUnit_def

text \<open>
  C7. For every feature vector the model's prediction is the logistic function of the bias
  plus the weighted feature sum and lies strictly between 0 and 1; \<^verbatim>\<open>predictLinkQuality\<close>
  uses it once the model is ready. While the model is not ready (as in a newly constructed
  calculator, before any feedback) the prediction is the combination with the fixed weights
  0.4/0.3/0.2/0.1 of the first four features, clamped to the interval from 0 to 1. In both cases
  the cost returned is \<open>original_cost * (1 + prediction)\<close>.
\<close>

theorem ml_prediction_range:
  "0 < predict m xs \<and> predict m xs < 1
   \<and> predict m xs = 1 / (1 + exp (- (m_bias m + sum_list (map (\<lambda>p. fst p * snd p) (zip (m_weights m) xs)))))
   \<and> (m_isModelReady ml \<longrightarrow>
        mlPrediction wall n ml = predict (m_model ml) (extractCoreFeatures wall n ml))
   \<and> (\<not> m_isModelReady ml \<longrightarrow>
        mlPrediction wall n ml =
          max 0 (min ((4 / 10) * calculateRttTrend n ml
                      + (3 / 10) * calculateRttVariationCoefficient n ml
                      + (2 / 10) * calculateSuccessRate n ml
                      + (1 / 10) * calculateLoadIndicator n ml) 1)
        \<and> 0 \<le> mlPrediction wall n ml \<and> mlPrediction wall n ml \<le> 1)
   \<and> \<not> m_isModelReady (newMLAdaptiveCalculator t0)
   \<and> fst (predictLinkQuality wall n metrics ml)
       = real (lm_originalCost metrics) * (1 + mlPrediction wall n ml)"
proof -
  have a: "predict m xs = 1 / (1 + exp (- (m_bias m + sum_list (map (\<lambda>p. fst p * snd p) (zip (m_weights m) xs)))))"
    by (simp add: predict_def weightedSum_sum)
  have b: "m_isModelReady ml \<Longrightarrow>
        mlPrediction wall n ml = predict (m_model ml) (extractCoreFeatures wall n ml)"
    by (simp add: mlPrediction_def Let_def)
  have c: "\<not> m_isModelReady ml \<Longrightarrow> mlPrediction wall n ml =
          max 0 (min ((4 / 10) * calculateRttTrend n ml
                      + (3 / 10) * calculateRttVariationCoefficient n ml
                      + (2 / 10) * calculateSuccessRate n ml
                      + (1 / 10) * calculateLoadIndicator n ml) 1)"
    by (simp add: mlPrediction_def Let_def extractCoreFeatures_def predictWithFixedWeights_four)
  have d: "\<not> m_isModelReady ml \<Longrightarrow> 0 \<le> mlPrediction wall n ml \<and> mlPrediction wall n ml \<le> 1"
    using c by (simp add: max_def min_def)
  have e: "\<not> m_isModelReady (newMLAdaptiveCalculator t0)"
    by (simp add: newMLAdaptiveCalculator_def)
  have f: "fst (predictLinkQuality wall n metrics ml)
       = real (lm_originalCost metrics) * (1 + mlPrediction wall n ml)"
    by (simp add: predictLinkQuality_def Let_def)
  show ?thesis using predict_range [of m xs] a b c d e f by blast
qed

lemma trainedCalculator_ready: "m_isModelReady trainedCalculator"
  by (simp add: trainedCalculator_def reportPathPerformance_def updateModelWithFeedback_def
      shouldTriggerModelUpdate_def Let_def ml_defs time_defs)

theorem ml_prediction_range_witness:
  "m_isModelReady trainedCalculator
   \<and> mlPrediction exampleWall neighborA trainedCalculator
       = predict (m_model trainedCalculator) (extractCoreFeatures exampleWall neighborA trainedCalculator)
   \<and> 0 < mlPrediction exampleWall neighborA trainedCalculator
   \<and> mlPrediction exampleWall neighborA trainedCalculator < 1
   \<and> \<not> m_isModelReady (newMLAdaptiveCalculator 0)
   \<and> mlPrediction exampleWall neighborA (newMLAdaptiveCalculator 0) = 1 / 10
   \<and> fst (predictLinkQuality exampleWall neighborA subMillisecondMetrics (newMLAdaptiveCalculator 0)) = 11"
proof -
  note ready = ml_prediction_range
    [of "m_model trainedCalculator" "extractCoreFeatures exampleWall neighborA trainedCalculator"
        trainedCalculator exampleWall neighborA 0 subMillisecondMetrics]
  note fresh = ml_prediction_range
    [of "m_model trainedCalculator" "extractCoreFeatures exampleWall neighborA trainedCalculator"
        "newMLAdaptiveCalculator 0" exampleWall neighborA 0 subMillisecondMetrics]
  have n: "\<not> m_isModelReady (newMLAdaptiveCalculator 0)" using fresh by blast
  have v: "mlPrediction exampleWall neighborA (newMLAdaptiveCalculator 0) = 1 / 10"
  proof -
    from fresh n have "mlPrediction exampleWall neighborA (newMLAdaptiveCalculator 0) =
          max 0 (min ((4 / 10) * calculateRttTrend neighborA (newMLAdaptiveCalculator 0)
                      + (3 / 10) * calculateRttVariationCoefficient neighborA (newMLAdaptiveCalculator 0)
                      + (2 / 10) * calculateSuccessRate neighborA (newMLAdaptiveCalculator 0)
                      + (1 / 10) * calculateLoadIndicator neighborA (newMLAdaptiveCalculator 0)) 1)"
      by blast
    then show ?thesis by (simp add: ml_defs)
  qed
  have c: "fst (predictLinkQuality exampleWall neighborA subMillisecondMetrics (newMLAdaptiveCalculator 0)) = 11"
    using fresh v by (simp add: subMillisecondMetrics_def)
  have r: "mlPrediction exampleWall neighborA trainedCalculator
       = predict (m_model trainedCalculator) (extractCoreFeatures exampleWall neighborA trainedCalculator)"
    using ready trainedCalculator_ready by blast
  have "0 < predict (m_model trainedCalculator) (extractCoreFeatures exampleWall neighborA trainedCalculator)
      \<and> predict (m_model trainedCalculator) (extractCoreFeatures exampleWall neighborA trainedCalculator) < 1"
    using ready by blast
  then have p: "0 < mlPrediction exampleWall neighborA trainedCalculator
      \<and> mlPrediction exampleWall neighborA trainedCalculator < 1"
    by (simp only: r)
  show ?thesis using trainedCalculator_ready r p n v c by blast
qed

section \<open>The adaptive calculator: online update\<close>

lemma extractCoreFeatures_length: "length (extractCoreFeatures wall n ml) = FEATURE_COUNT"
  by (simp add: extractCoreFeatures_def FEATURE_COUNT_def)

lemma ema_form:
  fixes avg e :: real
  shows "(if 0 < N then (avg * real (N - 1) + e) / real N else e)
           = (1 - 1 / real (max N 1)) * avg + (1 / real (max N 1)) * e"
proof (cases "0 < N")
  case True
  then have m: "max N 1 = N" by simp
  have "real (N - 1) = real N - 1" using True by (simp add: of_nat_diff)
  then show ?thesis using True unfolding m by (simp add: field_simps)
next
  case False
  then show ?thesis by simp
qed

lemma updateModelWithFeedback_average:
  assumes "length x = FEATURE_COUNT"
  shows "averagePredictionError (m_statistics (updateModelWithFeedback now n x actual ml))
     = (if 0 < predictionCount (m_statistics ml)
        then (averagePredictionError (m_statistics ml) * real (predictionCount (m_statistics ml) - 1)
                + \<bar>actual - predict (m_model ml) x\<bar>) / real (predictionCount (m_statistics ml))
        else \<bar>actual - predict (m_model ml) x\<bar>)"
  using assms
  by (simp add: updateModelWithFeedback_def Let_def adaptLearningRate_def)

lemma updateModelWithFeedback_triggered:
  assumes "length x = FEATURE_COUNT"
    "m_adaptationThreshold ml < \<bar>actual - predict (m_model ml) x\<bar>
       \<or> seconds 30 < now - m_lastModelUpdate ml"
  shows "modelUpdateCount (m_statistics (updateModelWithFeedback now n x actual ml))
           = modelUpdateCount (m_statistics ml) + 1
    \<and> m_isModelReady (updateModelWithFeedback now n x actual ml)
    \<and> m_lastModelUpdate (updateModelWithFeedback now n x actual ml) = now
    \<and> m_learningRate (updateModelWithFeedback now n x actual ml)
        = (let avg' = averagePredictionError (m_statistics (updateModelWithFeedback now n x actual ml));
               eta = m_learningRate ml
           in if 3 / 10 < avg' then min (5 / 100) (eta * (11 / 10))
              else if avg' < 1 / 10 then max (1 / 1000) (eta * (9 / 10))
              else eta)
    \<and> m_model (updateModelWithFeedback now n x actual ml)
        = updateOnline x actual (m_learningRate (updateModelWithFeedback now n x actual ml)) (m_model ml)"
  using assms
  by (auto simp add: updateModelWithFeedback_def Let_def adaptLearningRate_def
      shouldTriggerModelUpdate_def MIN_UPDATE_INTERVAL_def)

lemma updateModelWithFeedback_not_triggered:
  assumes "\<not> (m_adaptationThreshold ml < \<bar>actual - predict (m_model ml) x\<bar>
       \<or> seconds 30 < now - m_lastModelUpdate ml)"
  shows "modelUpdateCount (m_statistics (updateModelWithFeedback now n x actual ml))
           = modelUpdateCount (m_statistics ml)
    \<and> m_isModelReady (updateModelWithFeedback now n x actual ml) = m_isModelReady ml
    \<and> m_lastModelUpdate (updateModelWithFeedback now n x actual ml) = m_lastModelUpdate ml
    \<and> m_learningRate (updateModelWithFeedback now n x actual ml) = m_learningRate ml
    \<and> m_model (updateModelWithFeedback now n x actual ml) = m_model ml"
  using assms
  by (auto simp add: updateModelWithFeedback_def Let_def
      shouldTriggerModelUpdate_def MIN_UPDATE_INTERVAL_def)

lemma reportPathPerformance_core:
  "m_model (reportPathPerformance wall now n actual ml)
     = m_model (updateModelWithFeedback now n (extractCoreFeatures wall n ml) actual ml)
   \<and> m_learningRate (reportPathPerformance wall now n actual ml)
     = m_learningRate (updateModelWithFeedback now n (extractCoreFeatures wall n ml) actual ml)
   \<and> m_statistics (reportPathPerformance wall now n actual ml)
     = m_statistics (updateModelWithFeedback now n (extractCoreFeatures wall n ml) actual ml)
   \<and> m_isModelReady (reportPathPerformance wall now n actual ml)
     = m_isModelReady (updateModelWithFeedback now n (extractCoreFeatures wall n ml) actual ml)
   \<and> m_lastModelUpdate (reportPathPerformance wall now n actual ml)
     = m_lastModelUpdate (updateModelWithFeedback now n (extractCoreFeatures wall n ml) actual ml)"
  by (simp add: reportPathPerformance_def updateModelWithFeedback_def Let_def
      shouldTriggerModelUpdate_def adaptLearningRate_def)

lemma updateOnline_step:
  assumes "length x = length (m_weights m)"
  shows "m_bias (updateOnline x target eta m) = m_bias m + eta * (target - predict m x)
    \<and> m_weights (updateOnline x target eta m)
        = map (\<lambda>p. fst p + eta * (target - predict m x) * snd p) (zip (m_weights m) x)"
  using assms by (simp add: updateOnline_def Let_def)

lemma fresh_weights:
  "m_weights (m_model (newMLAdaptiveCalculator t0)) = [4 / 10, 3 / 10, 2 / 10, 1 / 10, 15 / 100]
   \<and> m_bias (m_model (newMLAdaptiveCalculator t0)) = 0"
  by (simp add: newMLAdaptiveCalculator_def newLinearRegressionModel_def FEATURE_COUNT_def
      eval_nat_numeral)

lemma fresh_features:
  "extractCoreFeatures exampleWall neighborA (newMLAdaptiveCalculator t0) = [0, 0, 1 / 2, 0, 1 / 2]"
  by (simp add: ml_defs)

lemma fresh_prediction:
  "predict (m_model (newMLAdaptiveCalculator t0))
     (extractCoreFeatures exampleWall neighborA (newMLAdaptiveCalculator t0))
   = 1 / (1 + exp (- (7 / 40)))"
  by (simp add: predict_def weightedSum_def fresh_weights fresh_features)

lemma fresh_prediction_bounds:
  "1 / 2 < 1 / (1 + exp (- (7 / 40 :: real))) \<and> 1 / (1 + exp (- (7 / 40 :: real))) \<le> 40 / 73"
proof -
  let ?e = "exp (- (7 / 40 :: real))"
  have l: "33 / 40 \<le> ?e" using exp_ge_add_one_self [of "- (7 / 40 :: real)"] by simp
  have u: "?e < 1" by simp
  have p: "0 < 1 + ?e" using l by linarith
  have "1 + ?e < 2" using u by linarith
  then have a: "1 / 2 < 1 / (1 + ?e)" using p by (simp add: field_simps)
  have "73 / 40 \<le> 1 + ?e" using l by linarith
  then have b: "1 / (1 + ?e) \<le> 40 / 73" using p by (simp add: field_simps)
  show ?thesis using a b by blast
qed

lemma fresh_small_error:
  "\<not> (m_adaptationThreshold (newMLAdaptiveCalculator 0)
        < \<bar>1 / 2 - predict (m_model (newMLAdaptiveCalculator 0))
                     (extractCoreFeatures exampleWall neighborA (newMLAdaptiveCalculator 0))\<bar>
      \<or> seconds 30 < seconds 30 - m_lastModelUpdate (newMLAdaptiveCalculator 0))"
proof -
  have t: "m_adaptationThreshold (newMLAdaptiveCalculator 0) = 2 / 10"
    "m_lastModelUpdate (newMLAdaptiveCalculator 0) = 0"
    by (simp_all add: newMLAdaptiveCalculator_def)
  show ?thesis unfolding fresh_prediction t using fresh_prediction_bounds by (simp add: abs_if)
qed

text \<open>
  C8. On a feedback \<open>(neighbor, actual)\<close> with \<open>eps = actual - prediction\<close>: the tracked
  average of \<open>\<bar>eps\<bar>\<close> moves to \<open>(1 - a) * average + a * \<bar>eps\<bar>\<close>, an exponential-moving-average
  step whose factor \<open>a\<close> is one over the prediction count (1 while the count is 0); a model
  update is triggered exactly when \<open>\<bar>eps\<bar>\<close> exceeds the adaptation threshold (0.2 in a new
  calculator) or more than 30 s have elapsed since the last update; the learning rate is
  then multiplied by 1.1 (capped at 0.05) when the average exceeds 0.3 and by 0.9 (floored at
  0.001) when it is below 0.1, and the gradient step \<open>b := b + eta * eps\<close>,
  \<open>w\<^sub>i := w\<^sub>i + eta * eps * x\<^sub>i\<close> is applied with that rate; without a trigger the model and the
  learning rate stay as they are.
\<close>

theorem feedback_model_update:
  "(let x = extractCoreFeatures wall n ml;
        eps = actual - predict (m_model ml) x;
        N = predictionCount (m_statistics ml);
        ml' = reportPathPerformance wall now n actual ml;
        avg' = averagePredictionError (m_statistics ml');
        eta' = (if 3 / 10 < avg' then min (5 / 100) (m_learningRate ml * (11 / 10))
                else if avg' < 1 / 10 then max (1 / 1000) (m_learningRate ml * (9 / 10))
                else m_learningRate ml);
        trigger = (m_adaptationThreshold ml < \<bar>eps\<bar> \<or> seconds 30 < now - m_lastModelUpdate ml)
    in avg' = (1 - 1 / real (max N 1)) * averagePredictionError (m_statistics ml)
                + (1 / real (max N 1)) * \<bar>eps\<bar>
       \<and> ((modelUpdateCount (m_statistics ml') = modelUpdateCount (m_statistics ml) + 1) = trigger)
       \<and> (trigger \<longrightarrow> m_learningRate ml' = eta' \<and> m_isModelReady ml' \<and> m_lastModelUpdate ml' = now)
       \<and> (trigger \<and> length (m_weights (m_model ml)) = FEATURE_COUNT \<longrightarrow>
            m_bias (m_model ml') = m_bias (m_model ml) + eta' * eps
            \<and> m_weights (m_model ml')
                = map (\<lambda>p. fst p + eta' * eps * snd p) (zip (m_weights (m_model ml)) x))
       \<and> (\<not> trigger \<longrightarrow> m_model ml' = m_model ml \<and> m_learningRate ml' = m_learningRate ml)
       \<and> m_adaptationThreshold (newMLAdaptiveCalculator t0) = 2 / 10
       \<and> length (m_weights (m_model (newMLAdaptiveCalculator t0))) = FEATURE_COUNT)"
proof -
  let ?x = "extractCoreFeatures wall n ml"
  let ?eps = "actual - predict (m_model ml) ?x"
  let ?u = "updateModelWithFeedback now n ?x actual ml"
  let ?trigger = "m_adaptationThreshold ml < \<bar>?eps\<bar> \<or> seconds 30 < now - m_lastModelUpdate ml"
  note len = extractCoreFeatures_length [of wall n ml]
  note core = reportPathPerformance_core [of wall now n actual ml]
  have avg: "averagePredictionError (m_statistics ?u)
      = (1 - 1 / real (max (predictionCount (m_statistics ml)) 1)) * averagePredictionError (m_statistics ml)
         + (1 / real (max (predictionCount (m_statistics ml)) 1)) * \<bar>?eps\<bar>"
    unfolding updateModelWithFeedback_average [OF len] by (rule ema_form)
  have cnt: "(modelUpdateCount (m_statistics ?u) = modelUpdateCount (m_statistics ml) + 1) = ?trigger"
  proof (cases ?trigger)
    case True
    from updateModelWithFeedback_triggered [OF len True, of n] True show ?thesis by simp
  next
    case False
    from updateModelWithFeedback_not_triggered [OF False, of n] False show ?thesis by simp
  qed
  have trig: "?trigger \<Longrightarrow> m_learningRate ?u
        = (if 3 / 10 < averagePredictionError (m_statistics ?u) then min (5 / 100) (m_learningRate ml * (11 / 10))
           else if averagePredictionError (m_statistics ?u) < 1 / 10 then max (1 / 1000) (m_learningRate ml * (9 / 10))
           else m_learningRate ml)
      \<and> m_isModelReady ?u \<and> m_lastModelUpdate ?u = now
      \<and> m_model ?u = updateOnline ?x actual (m_learningRate ?u) (m_model ml)"
    using updateModelWithFeedback_triggered [OF len, of ml actual now n] by (simp add: Let_def)
  have step: "?trigger \<and> length (m_weights (m_model ml)) = FEATURE_COUNT \<Longrightarrow>
      m_bias (m_model ?u) = m_bias (m_model ml) + m_learningRate ?u * ?eps
      \<and> m_weights (m_model ?u)
          = map (\<lambda>p. fst p + m_learningRate ?u * ?eps * snd p) (zip (m_weights (m_model ml)) ?x)"
  proof -
    assume a: "?trigger \<and> length (m_weights (m_model ml)) = FEATURE_COUNT"
    then have m: "m_model ?u = updateOnline ?x actual (m_learningRate ?u) (m_model ml)"
      using trig by blast
    have "length ?x = length (m_weights (m_model ml))" using a len by simp
    from updateOnline_step [OF this, of actual "m_learningRate ?u"] show ?thesis
      by (simp only: m)
  qed
  have quiet: "\<not> ?trigger \<Longrightarrow> m_model ?u = m_model ml \<and> m_learningRate ?u = m_learningRate ml"
    using updateModelWithFeedback_not_triggered [of ml actual ?x now n] by blast
  have init: "m_adaptationThreshold (newMLAdaptiveCalculator t0) = 2 / 10
       \<and> length (m_weights (m_model (newMLAdaptiveCalculator t0))) = FEATURE_COUNT"
    by (simp add: newMLAdaptiveCalculator_def newLinearRegressionModel_def FEATURE_COUNT_def)
  have rate: "?trigger \<Longrightarrow> m_learningRate ?u
        = (if 3 / 10 < averagePredictionError (m_statistics ?u) then min (5 / 100) (m_learningRate ml * (11 / 10))
           else if averagePredictionError (m_statistics ?u) < 1 / 10 then max (1 / 1000) (m_learningRate ml * (9 / 10))
           else m_learningRate ml)"
    using trig by blast
  have step': "?trigger \<and> length (m_weights (m_model ml)) = FEATURE_COUNT \<Longrightarrow>
      m_bias (m_model ?u) = m_bias (m_model ml)
         + (if 3 / 10 < averagePredictionError (m_statistics ?u) then min (5 / 100) (m_learningRate ml * (11 / 10))
           else if averagePredictionError (m_statistics ?u) < 1 / 10 then max (1 / 1000) (m_learningRate ml * (9 / 10))
           else m_learningRate ml) * ?eps
      \<and> m_weights (m_model ?u)
          = map (\<lambda>p. fst p + (if 3 / 10 < averagePredictionError (m_statistics ?u) then min (5 / 100) (m_learningRate ml * (11 / 10))
           else if averagePredictionError (m_statistics ?u) < 1 / 10 then max (1 / 1000) (m_learningRate ml * (9 / 10))
           else m_learningRate ml) * ?eps * snd p) (zip (m_weights (m_model ml)) ?x)"
    using step rate by (simp only:)
  have ready: "?trigger \<Longrightarrow> m_isModelReady ?u \<and> m_lastModelUpdate ?u = now"
    using trig by blast
  show ?thesis
    unfolding Let_def
    apply (simp only: core)
    apply (intro conjI impI)
    subgoal by (rule avg)
    subgoal by (rule cnt)
    subgoal using rate by blast
    subgoal using ready by blast
    subgoal using ready by blast
    subgoal using step' by blast
    subgoal using step' by blast
    subgoal using quiet by blast
    subgoal using quiet by blast
    subgoal using init by blast
    subgoal using init by blast
    done
qed

text \<open>
  The periodic condition of the source is strict: a feedback with a small error that arrives
  exactly 30 s after the last update triggers no update.
\<close>

theorem feedback_at_thirty_seconds_counterexample:
  "(let ml = newMLAdaptiveCalculator 0;
        ml' = reportPathPerformance exampleWall (seconds 30) neighborA (1 / 2) ml
    in seconds 30 \<le> seconds 30 - m_lastModelUpdate ml
       \<and> modelUpdateCount (m_statistics ml') = modelUpdateCount (m_statistics ml)
       \<and> m_model ml' = m_model ml
       \<and> \<not> m_isModelReady ml')"
proof -
  let ?ml = "newMLAdaptiveCalculator 0"
  note core = reportPathPerformance_core [of exampleWall "seconds 30" neighborA "1 / 2" ?ml]
  note quiet = updateModelWithFeedback_not_triggered [OF fresh_small_error, of neighborA]
  have "m_lastModelUpdate ?ml = 0" "\<not> m_isModelReady ?ml"
    by (simp_all add: newMLAdaptiveCalculator_def)
  then show ?thesis unfolding Let_def using core quiet by simp
qed

theorem feedback_model_update_witness:
  "(let ml = newMLAdaptiveCalculator 0;
        late = reportPathPerformance exampleWall (seconds 40) neighborA 1 ml;
        early = reportPathPerformance exampleWall (seconds 30) neighborA (1 / 2) ml
    in seconds 30 < seconds 40 - m_lastModelUpdate ml
       \<and> length (m_weights (m_model ml)) = FEATURE_COUNT
       \<and> modelUpdateCount (m_statistics late) = modelUpdateCount (m_statistics ml) + 1
       \<and> m_isModelReady late \<and> m_lastModelUpdate late = seconds 40
       \<and> m_bias (m_model late)
           = m_bias (m_model ml) + m_learningRate late
               * (1 - predict (m_model ml) (extractCoreFeatures exampleWall neighborA ml))
       \<and> m_model early = m_model ml \<and> m_learningRate early = m_learningRate ml)"
proof -
  let ?ml = "newMLAdaptiveCalculator 0"
  note late = feedback_model_update [of exampleWall neighborA ?ml 1 "seconds 40" 0, unfolded Let_def]
  note early = feedback_model_update [of exampleWall neighborA ?ml "1 / 2" "seconds 30" 0, unfolded Let_def]
  have t: "seconds 30 < seconds 40 - m_lastModelUpdate ?ml"
    by (simp add: newMLAdaptiveCalculator_def time_defs)
  have l: "length (m_weights (m_model ?ml)) = FEATURE_COUNT" using late by blast
  have 1: "modelUpdateCount (m_statistics (reportPathPerformance exampleWall (seconds 40) neighborA 1 ?ml))
        = modelUpdateCount (m_statistics ?ml) + 1"
    using late t by blast
  have 2: "m_isModelReady (reportPathPerformance exampleWall (seconds 40) neighborA 1 ?ml)
      \<and> m_lastModelUpdate (reportPathPerformance exampleWall (seconds 40) neighborA 1 ?ml) = seconds 40"
    using late t by blast
  let ?late = "reportPathPerformance exampleWall (seconds 40) neighborA 1 ?ml"
  let ?eta = "(if 3 / 10 < averagePredictionError (m_statistics ?late)
               then min (5 / 100) (m_learningRate ?ml * (11 / 10))
               else if averagePredictionError (m_statistics ?late) < 1 / 10
               then max (1 / 1000) (m_learningRate ?ml * (9 / 10))
               else m_learningRate ?ml)"
  have r: "m_learningRate ?late = ?eta" using late t by blast
  have b: "m_bias (m_model ?late) = m_bias (m_model ?ml)
      + ?eta * (1 - predict (m_model ?ml) (extractCoreFeatures exampleWall neighborA ?ml))"
    using late t l by blast
  have 3: "m_bias (m_model ?late)
           = m_bias (m_model ?ml) + m_learningRate ?late
               * (1 - predict (m_model ?ml) (extractCoreFeatures exampleWall neighborA ?ml))"
    unfolding r by (rule b)
  have 4: "m_model (reportPathPerformance exampleWall (seconds 30) neighborA (1 / 2) ?ml) = m_model ?ml
      \<and> m_learningRate (reportPathPerformance exampleWall (seconds 30) neighborA (1 / 2) ?ml) = m_learningRate ?ml"
    using early fresh_small_error by blast
  show ?thesis unfolding Let_def using t l 1 2 3 4 by blast
qed

section \<open>Delegation to a registered calculator\<close>

lemma delegateCost_threw:
  assumes "m_loadAwareCostCalculator s = Some calculator" "getLinkMetrics n s = Some metrics"
    "calculator n c metrics = Threw"
  shows "delegateCost n c s = Some c"
  using assms by (simp add: delegateCost_def)

lemma delegateCost_threw_other:
  assumes "m_loadAwareCostCalculator s = Some calculator" "getLinkMetrics n s = Some metrics"
    "calculator n c metrics = ThrewOther"
  shows "delegateCost n c s = None"
  using assms by (simp add: delegateCost_def)

lemma delegateCost_none:
  "delegateCost n c (s\<lparr>m_loadAwareCostCalculator := None\<rparr>) = Some c"
  by (simp add: delegateCost_def)

lemma updateNeighborCost_threw:
  assumes "m_loadAwareCostCalculator s = Some calculator" "getLinkMetrics n s = Some metrics"
    "calculator n c metrics = Threw"
  shows "updateNeighborCost now n c s
         = (updateNeighborCost now n c (s\<lparr>m_loadAwareCostCalculator := None\<rparr>))
             \<lparr>m_loadAwareCostCalculator := Some calculator\<rparr>"
proof -
  show ?thesis
    unfolding updateNeighborCost_def delegateCost_threw [OF assms] delegateCost_none
    using assms(1)
    by (auto simp add: Let_def split: option.splits intro!: LinkCostManager.equality)
qed

lemma updateNeighborCost_threw_other:
  assumes "m_loadAwareCostCalculator s = Some calculator" "getLinkMetrics n s = Some metrics"
    "calculator n c metrics = ThrewOther"
    "m_adjacencyList s n = Some a" "lm_status metrics \<noteq> STATUS_INACTIVE"
  shows "updateNeighborCost now n c s = s\<lparr>escapedExceptions := escapedExceptions s + 1\<rparr>"
proof -
  from assms(2) obtain ls where l: "m_outgoingLinks s n = Some ls" "lm_status metrics = status ls"
    by (auto simp add: getLinkMetrics_def split: option.splits)
  show ?thesis
    unfolding updateNeighborCost_def delegateCost_threw_other [OF assms(1-3)]
    using l assms(4,5) by simp
qed

lemma registeredCostCallback_value:
  "registeredCostCallback wall ml n c metrics
     = Returned (real (lm_originalCost metrics) * (1 + mlPrediction wall n ml))"
  by (simp add: registeredCostCallback_def predictLinkQuality_def Let_def)

lemma trend_checked: "calculateRttTrendChecked n ml = Finite (calculateRttTrend n ml)"
  by (simp add: calculateRttTrendChecked_def calculateRttTrend_def fdiv_def fbind_def Let_def
      split: option.splits)

lemma variation_checked:
  "calculateRttVariationCoefficientChecked n ml = Finite (calculateRttVariationCoefficient n ml)"
proof (cases "m_rttHistory ml n")
  case None
  then show ?thesis
    by (simp add: calculateRttVariationCoefficientChecked_def calculateRttVariationCoefficient_def)
next
  case (Some h)
  show ?thesis
  proof (cases "length h < 3")
    case True
    then show ?thesis using Some
      by (simp add: calculateRttVariationCoefficientChecked_def calculateRttVariationCoefficient_def)
  next
    case False
    then have len: "real (length h) \<noteq> 0" by auto
    let ?mean = "sum_list h / real (length h)"
    have v: "0 \<le> sum_list (map (\<lambda>x. (x - ?mean) * (x - ?mean)) h)"
      by (rule sum_list_nonneg) auto
    then have v': "\<not> sum_list (map (\<lambda>x. (x - ?mean) * (x - ?mean)) h) / real (length h) < 0"
      by (simp add: not_less)
    show ?thesis using Some False len v'
      by (auto simp add: calculateRttVariationCoefficientChecked_def
          calculateRttVariationCoefficient_def fdiv_def fsqrt_def fbind_def Let_def)
  qed
qed

lemma success_checked: "calculateSuccessRateChecked n ml = Finite (calculateSuccessRate n ml)"
  by (simp add: calculateSuccessRateChecked_def calculateSuccessRate_def fdiv_def
      split: option.splits)

lemma load_checked: "calculateLoadIndicatorChecked n ml = Finite (calculateLoadIndicator n ml)"
  by (simp add: calculateLoadIndicatorChecked_def calculateLoadIndicator_def fdiv_def fbind_def Let_def
      split: option.splits)

lemma features_checked:
  "fcollect (extractCoreFeaturesChecked wall n ml) = Some (extractCoreFeatures wall n ml)"
  by (simp add: extractCoreFeaturesChecked_def extractCoreFeatures_def trend_checked
      variation_checked success_checked load_checked)

lemma predict_checked: "predictChecked m xs = Finite (predict m xs)"
proof -
  have "0 < exp (- weightedSum (m_bias m) (m_weights m) xs)" by simp
  then have "1 + exp (- weightedSum (m_bias m) (m_weights m) xs) \<noteq> 0" by linarith
  then show ?thesis by (simp add: predictChecked_def predict_def fdiv_def)
qed

lemma predictLinkQuality_checked:
  "predictLinkQualityChecked wall n metrics ml = Finite (fst (predictLinkQuality wall n metrics ml))"
  by (simp add: predictLinkQualityChecked_def features_checked predict_checked fbind_def
      predictLinkQuality_def mlPrediction_def Let_def)

lemma mlPrediction_unit: "0 \<le> mlPrediction wall n ml \<and> mlPrediction wall n ml \<le> 1"
proof (cases "m_isModelReady ml")
  case True
  then show ?thesis
    using predict_range [of "m_model ml" "extractCoreFeatures wall n ml"]
    by (simp add: mlPrediction_def Let_def)
next
  case False
  then show ?thesis
    by (simp add: mlPrediction_def Let_def predictWithFixedWeights_def max_def min_def)
qed

lemma predictLinkQuality_bounds:
  "real (lm_originalCost metrics) \<le> fst (predictLinkQuality wall n metrics ml)
   \<and> fst (predictLinkQuality wall n metrics ml) \<le> 2 * real (lm_originalCost metrics)"
proof -
  let ?p = "mlPrediction wall n ml"
  let ?o = "real (lm_originalCost metrics)"
  have u: "0 \<le> ?p \<and> ?p \<le> 1" by (rule mlPrediction_unit)
  have "?o * 1 \<le> ?o * (1 + ?p)" by (rule mult_left_mono) (use u in simp_all)
  moreover have "?o * (1 + ?p) \<le> ?o * 2" by (rule mult_left_mono) (use u in simp_all)
  ultimately show ?thesis by (simp add: predictLinkQuality_def Let_def)
qed

lemma sub_ms_history:
  "m_rttHistory calculatorAfterSubMillisecondRtts neighborA = Some [0, 0, 0]
   \<and> \<not> m_isModelReady calculatorAfterSubMillisecondRtts"
  by (simp add: calculatorAfterSubMillisecondRtts_def predictLinkQuality_def subMillisecondMetrics_def
      Let_def ml_defs time_defs)

text \<open>
  C6. When a calculator is registered and \<^verbatim>\<open>updateNeighborCost\<close> delegates to it, a
  \<^verbatim>\<open>std::exception\<close> thrown by the calculator leaves the final cost equal to the RTT-based
  candidate, and the update goes on exactly as it does with no calculator registered; a thrown
  object of any other type is not caught and leaves \<^verbatim>\<open>updateNeighborCost\<close> with no cost
  written and no rebuild requested. The function the ML calculator registers never throws
  and has no path back to the candidate: whatever \<open>rttBasedCost\<close> it is handed, it returns
  \<open>original_cost * (1 + prediction)\<close>. On the way it never divides by zero and never takes
  the square root of a negative number, so the value it returns is finite: it lies between
  the original cost and twice the original cost.
\<close>

theorem calculator_failure_fallback:
  "(\<forall>calculator metrics.
       m_loadAwareCostCalculator s = Some calculator \<and> getLinkMetrics n s = Some metrics
       \<and> calculator n c metrics = Threw \<longrightarrow>
       delegateCost n c s = Some c
       \<and> updateNeighborCost now n c s
           = (updateNeighborCost now n c (s\<lparr>m_loadAwareCostCalculator := None\<rparr>))
               \<lparr>m_loadAwareCostCalculator := Some calculator\<rparr>)
   \<and> (\<forall>calculator metrics a.
       m_loadAwareCostCalculator s = Some calculator \<and> getLinkMetrics n s = Some metrics
       \<and> calculator n c metrics = ThrewOther
       \<and> m_adjacencyList s n = Some a \<and> lm_status metrics \<noteq> STATUS_INACTIVE \<longrightarrow>
       delegateCost n c s = None
       \<and> updateNeighborCost now n c s = s\<lparr>escapedExceptions := escapedExceptions s + 1\<rparr>)
   \<and> registeredCostCallback wall ml n c m
       = Returned (real (lm_originalCost m) * (1 + mlPrediction wall n ml))
   \<and> registeredCostCallback wall ml n c m = registeredCostCallback wall ml n c' m
   \<and> predictLinkQualityChecked wall n m ml
       = Finite (real (lm_originalCost m) * (1 + mlPrediction wall n ml))
   \<and> real (lm_originalCost m) \<le> real (lm_originalCost m) * (1 + mlPrediction wall n ml)
   \<and> real (lm_originalCost m) * (1 + mlPrediction wall n ml) \<le> 2 * real (lm_originalCost m)"
proof -
  have v: "fst (predictLinkQuality wall n m ml) = real (lm_originalCost m) * (1 + mlPrediction wall n ml)"
    by (simp add: predictLinkQuality_def Let_def)
  have f: "predictLinkQualityChecked wall n m ml
       = Finite (real (lm_originalCost m) * (1 + mlPrediction wall n ml))"
    using predictLinkQuality_checked [of wall n m ml] by (simp only: v)
  have b: "real (lm_originalCost m) \<le> real (lm_originalCost m) * (1 + mlPrediction wall n ml)
      \<and> real (lm_originalCost m) * (1 + mlPrediction wall n ml) \<le> 2 * real (lm_originalCost m)"
    using predictLinkQuality_bounds [of m wall n ml] by (simp only: v)
  have r: "registeredCostCallback wall ml n c m = registeredCostCallback wall ml n c' m"
    by (simp only: registeredCostCallback_value)
  show ?thesis
    apply (intro conjI allI impI)
    subgoal by (rule delegateCost_threw) blast+
    subgoal by (rule updateNeighborCost_threw) blast+
    subgoal by (rule delegateCost_threw_other) blast+
    subgoal by (rule updateNeighborCost_threw_other) blast+
    subgoal by (rule registeredCostCallback_value)
    subgoal by (rule r)
    subgoal by (rule f)
    subgoal using b by blast
    subgoal using b by blast
    done
qed

theorem calculator_failure_fallback_witness:
  "(let s = setLoadAwareCostCalculator throwingCalculator exampleManager;
        s' = updateNeighborCost (seconds 20) neighborA 26 s;
        t = setLoadAwareCostCalculator otherThrowingCalculator exampleManager;
        t' = updateNeighborCost (seconds 20) neighborA 26 t
    in m_loadAwareCostCalculator s = Some throwingCalculator
       \<and> map_option lm_originalCost (getLinkMetrics neighborA s) = Some 10
       \<and> delegateCost neighborA 26 s = Some 26
       \<and> map_option currentCost (m_outgoingLinks s' neighborA) = Some 26
       \<and> lsdbAdjLsaBuilds s' = [CostUpdateBuild neighborA (seconds 20)]
       \<and> m_loadAwareCostCalculator t = Some otherThrowingCalculator
       \<and> map_option lm_status (getLinkMetrics neighborA t) = Some STATUS_ACTIVE
       \<and> delegateCost neighborA 26 t = None
       \<and> t' = t\<lparr>escapedExceptions := 1\<rparr>
       \<and> predictLinkQualityChecked exampleWall neighborA subMillisecondMetrics
            calculatorAfterSubMillisecondRtts = Finite 15)"
proof -
  let ?s = "setLoadAwareCostCalculator throwingCalculator exampleManager"
  let ?t = "setLoadAwareCostCalculator otherThrowingCalculator exampleManager"
  let ?m = "\<lparr>lm_neighbor = neighborA, lm_originalCost = 10, lm_currentCost = 10, lm_timeoutCount = 0,
      lm_lastSuccessTime = 0, lm_status = STATUS_ACTIVE, lm_rttHistory = [], lm_currentRtt = None\<rparr>"
  have c: "m_loadAwareCostCalculator ?s = Some throwingCalculator"
    by (simp add: setLoadAwareCostCalculator_def)
  have m: "getLinkMetrics neighborA ?s = Some ?m"
    by (simp add: getLinkMetrics_def setLoadAwareCostCalculator_def example_defs)
  have th: "throwingCalculator neighborA 26 ?m = Threw" by (simp add: throwingCalculator_def)
  note inst = calculator_failure_fallback
    [of ?s neighborA 26 "seconds 20" exampleWall calculatorAfterSubMillisecondRtts subMillisecondMetrics 26]
  from inst c m th
  have d: "delegateCost neighborA 26 ?s = Some 26"
    and u: "updateNeighborCost (seconds 20) neighborA 26 ?s
           = (updateNeighborCost (seconds 20) neighborA 26 (?s\<lparr>m_loadAwareCostCalculator := None\<rparr>))
               \<lparr>m_loadAwareCostCalculator := Some throwingCalculator\<rparr>"
    by blast+
  have e: "map_option currentCost (m_outgoingLinks (updateNeighborCost (seconds 20) neighborA 26 ?s) neighborA) = Some 26
      \<and> lsdbAdjLsaBuilds (updateNeighborCost (seconds 20) neighborA 26 ?s) = [CostUpdateBuild neighborA (seconds 20)]"
    unfolding u by (simp add: handler_defs example_defs time_defs setLoadAwareCostCalculator_def Let_def)
  have c2: "m_loadAwareCostCalculator ?t = Some otherThrowingCalculator"
    by (simp add: setLoadAwareCostCalculator_def)
  have m2: "getLinkMetrics neighborA ?t = Some ?m"
    by (simp add: getLinkMetrics_def setLoadAwareCostCalculator_def example_defs)
  have th2: "otherThrowingCalculator neighborA 26 ?m = ThrewOther"
    by (simp add: otherThrowingCalculator_def)
  have a2: "m_adjacencyList ?t neighborA = Some (exampleAdjacent 10)"
    by (simp add: setLoadAwareCostCalculator_def exampleManager_def freshManager_def initialize_def
        neighborA_def neighborB_def)
  have st2: "lm_status ?m \<noteq> STATUS_INACTIVE" by simp
  have z: "escapedExceptions ?t = 0"
    by (simp add: setLoadAwareCostCalculator_def example_defs)
  note inst2 = calculator_failure_fallback
    [of ?t neighborA 26 "seconds 20" exampleWall calculatorAfterSubMillisecondRtts subMillisecondMetrics 26]
  from inst2 have "m_loadAwareCostCalculator ?t = Some otherThrowingCalculator
       \<and> getLinkMetrics neighborA ?t = Some ?m
       \<and> otherThrowingCalculator neighborA 26 ?m = ThrewOther
       \<and> m_adjacencyList ?t neighborA = Some (exampleAdjacent 10) \<and> lm_status ?m \<noteq> STATUS_INACTIVE \<longrightarrow>
       delegateCost neighborA 26 ?t = None
       \<and> updateNeighborCost (seconds 20) neighborA 26 ?t = ?t\<lparr>escapedExceptions := escapedExceptions ?t + 1\<rparr>"
    by blast
  then have d2: "delegateCost neighborA 26 ?t = None"
    and u2: "updateNeighborCost (seconds 20) neighborA 26 ?t = ?t\<lparr>escapedExceptions := escapedExceptions ?t + 1\<rparr>"
    using c2 m2 th2 a2 st2 by blast+
  have u2': "updateNeighborCost (seconds 20) neighborA 26 ?t = ?t\<lparr>escapedExceptions := 1\<rparr>"
    unfolding u2 z by simp
  have p: "mlPrediction exampleWall neighborA calculatorAfterSubMillisecondRtts = 1 / 2"
    using sub_ms_history
    by (simp add: mlPrediction_def extractCoreFeatures_def calculateRttTrend_def
        calculateRttVariationCoefficient_def calculateSuccessRate_def calculateLoadIndicator_def
        predictWithFixedWeights_def weightedSum_def FIXED_WEIGHTS_def)
  from inst have "predictLinkQualityChecked exampleWall neighborA subMillisecondMetrics
        calculatorAfterSubMillisecondRtts
      = Finite (real (lm_originalCost subMillisecondMetrics)
          * (1 + mlPrediction exampleWall neighborA calculatorAfterSubMillisecondRtts))"
    by blast
  then have f: "predictLinkQualityChecked exampleWall neighborA subMillisecondMetrics
        calculatorAfterSubMillisecondRtts = Finite 15"
    unfolding p by (simp add: subMillisecondMetrics_def)
  show ?thesis unfolding Let_def using c m d e c2 m2 d2 u2' f by simp
qed

text \<open>
  A calculator that throws an object which is not a \<^verbatim>\<open>std::exception\<close>: the candidate 26
  is not applied, the cost stays 10 and nothing is requested. And the ML calculator after
  three sub-millisecond round-trip times, when its own history holds three zeros (the case
  its variation coefficient treats as abnormal, mean not positive): called with the candidate
  10, or 26, for a link of original cost 10, the registered function returns 15; the candidate
  does not come back.
\<close>

theorem calculator_claim_counterexample:
  "(let t = setLoadAwareCostCalculator otherThrowingCalculator exampleManager;
        t' = updateNeighborCost (seconds 20) neighborA 26 t
    in map_option currentCost (m_outgoingLinks t' neighborA) = Some 10
       \<and> map_option a_linkCost (m_adjacencyList t' neighborA) = Some 10
       \<and> m_costUpdates t' = 0
       \<and> lsdbAdjLsaBuilds t' = []
       \<and> escapedExceptions t' = 1)
   \<and> m_rttHistory calculatorAfterSubMillisecondRtts neighborA = Some [0, 0, 0]
   \<and> calculateRttVariationCoefficient neighborA calculatorAfterSubMillisecondRtts = 1
   \<and> registeredCostCallback exampleWall calculatorAfterSubMillisecondRtts neighborA 10 subMillisecondMetrics
       = Returned 15
   \<and> registeredCostCallback exampleWall calculatorAfterSubMillisecondRtts neighborA 26 subMillisecondMetrics
       = Returned 15"
proof -
  have e: "(let t = setLoadAwareCostCalculator otherThrowingCalculator exampleManager;
        t' = updateNeighborCost (seconds 20) neighborA 26 t
    in map_option currentCost (m_outgoingLinks t' neighborA) = Some 10
       \<and> map_option a_linkCost (m_adjacencyList t' neighborA) = Some 10
       \<and> m_costUpdates t' = 0
       \<and> lsdbAdjLsaBuilds t' = []
       \<and> escapedExceptions t' = 1)"
    by (simp add: handler_defs example_defs time_defs setLoadAwareCostCalculator_def
        otherThrowingCalculator_def getLinkMetrics_def Let_def)
  have f: "extractCoreFeatures exampleWall neighborA calculatorAfterSubMillisecondRtts = [0, 1, 1, 0, 1 / 2]"
    using sub_ms_history
    by (simp add: extractCoreFeatures_def calculateRttTrend_def calculateRttVariationCoefficient_def
        calculateSuccessRate_def calculateLoadIndicator_def getTimeFeature_def
        calculatorAfterSubMillisecondRtts_def predictLinkQuality_def Let_def subMillisecondMetrics_def
        newMLAdaptiveCalculator_def)
  have v: "calculateRttVariationCoefficient neighborA calculatorAfterSubMillisecondRtts = 1"
    using sub_ms_history by (simp add: calculateRttVariationCoefficient_def)
  have p: "mlPrediction exampleWall neighborA calculatorAfterSubMillisecondRtts = 1 / 2"
    using sub_ms_history
    by (simp add: mlPrediction_def f predictWithFixedWeights_def weightedSum_def FIXED_WEIGHTS_def)
  have "\<And>c. registeredCostCallback exampleWall calculatorAfterSubMillisecondRtts neighborA c subMillisecondMetrics
       = Returned 15"
    by (simp add: registeredCostCallback_def predictLinkQuality_def p subMillisecondMetrics_def Let_def)
  then show ?thesis using e sub_ms_history v by simp
qed

section \<open>The preview cost\<close>

lemma factor_ranges:
  "1 \<le> rttFactor r \<and> rttFactor r \<le> 2"
  "1 \<le> bwFactor u \<and> bwFactor u \<le> 2"
  "1 \<le> reliabilityFactor l \<and> reliabilityFactor l \<le> 2"
  "1 \<le> spectrumFactor sp \<and> spectrumFactor sp \<le> 2"
  by (auto simp add: rttFactor_def bwFactor_def reliabilityFactor_def spectrumFactor_def
      split: option.splits)

lemma compositeFactor_range: "1 \<le> compositeFactor ls e \<and> compositeFactor ls e \<le> 2"
  using factor_ranges(1) [of "averageRttMs ls"] factor_ranges(2) [of "utilization e"]
    factor_ranges(3) [of "packet_loss e"] factor_ranges(4) [of "spectrum_dbm e"]
  unfolding compositeFactor_def by linarith

lemma std_round_range:
  assumes "real a \<le> x" "x \<le> real b"
  shows "real a \<le> std_round x \<and> std_round x \<le> real b"
proof -
  have x0: "0 \<le> x" using assms(1) by (meson of_nat_0_le_iff order_trans)
  have "int a \<le> \<lfloor>x + 1 / 2\<rfloor>" using assms(1) by (simp add: le_floor_iff)
  moreover have "\<lfloor>x + 1 / 2\<rfloor> \<le> int b" using assms(2) by (simp add: floor_le_iff)
  ultimately have "real_of_int (int a) \<le> real_of_int \<lfloor>x + 1 / 2\<rfloor>
      \<and> real_of_int \<lfloor>x + 1 / 2\<rfloor> \<le> real_of_int (int b)"
    by (simp only: of_int_le_iff)
  then show ?thesis using x0 by (simp add: std_round_def)
qed

lemma preview_example:
  "calculateMultiDimensionalCostPreview exampleExternal neighborB exampleManager = Inr 15"
  by (simp add: calculateMultiDimensionalCostPreview_def compositeFactor_def externalOf_def
      exampleExternal_def averageRttMs_def rttFactor_def bwFactor_def reliabilityFactor_def
      spectrumFactor_def std_round_def example_defs)

lemma preview_known:
  assumes "m_outgoingLinks s n = Some ls"
  shows "calculateMultiDimensionalCostPreview ext n s
       = Inr (std_round (real (originalCost ls)
             * ((4 / 10) * rttFactor (averageRttMs ls)
                + (3 / 10) * bwFactor (utilization (externalOf ext n))
                + (2 / 10) * reliabilityFactor (packet_loss (externalOf ext n))
                + (1 / 10) * spectrumFactor (spectrum_dbm (externalOf ext n)))))"
    and "\<exists>p. calculateMultiDimensionalCostPreview ext n s = Inr p
            \<and> real (originalCost ls) \<le> p \<and> p \<le> 2 * real (originalCost ls)"
proof -
  show "calculateMultiDimensionalCostPreview ext n s
       = Inr (std_round (real (originalCost ls)
             * ((4 / 10) * rttFactor (averageRttMs ls)
                + (3 / 10) * bwFactor (utilization (externalOf ext n))
                + (2 / 10) * reliabilityFactor (packet_loss (externalOf ext n))
                + (1 / 10) * spectrumFactor (spectrum_dbm (externalOf ext n)))))"
    using assms by (simp add: calculateMultiDimensionalCostPreview_def compositeFactor_def)
  let ?c = "compositeFactor ls (externalOf ext n)"
  let ?o = "originalCost ls"
  have r: "1 \<le> ?c \<and> ?c \<le> 2" by (rule compositeFactor_range)
  have lo: "real ?o \<le> real ?o * ?c" using r by (simp add: mult_le_cancel_left1)
  have "real ?o * ?c \<le> real ?o * 2" using r by (simp add: mult_left_mono)
  then have hi: "real ?o * ?c \<le> real (2 * ?o)" by simp
  from std_round_range [OF lo hi]
  have "real ?o \<le> std_round (real ?o * ?c) \<and> std_round (real ?o * ?c) \<le> 2 * real ?o" by simp
  then show "\<exists>p. calculateMultiDimensionalCostPreview ext n s = Inr p
            \<and> real (originalCost ls) \<le> p \<and> p \<le> 2 * real (originalCost ls)"
    using assms by (simp add: calculateMultiDimensionalCostPreview_def)
qed

text \<open>
  C9. Whatever RTT data and external metrics are present or absent, each of the four preview
  factors lies between 1 and 2. For a neighbor known to the store the preview cost is
  \<open>round (original_cost * (0.4 * f_rtt + 0.3 * f_bw + 0.2 * f_loss + 0.1 * f_spec))\<close> and lies
  between the original cost and twice the original cost; an unknown neighbor is answered
  with \<open>NotFound\<close>. With utilization 0.65, packet loss 0.02, spectrum -45 dBm, no RTT data and
  original cost 12 the preview cost is 15.
\<close>

theorem preview_cost_range:
  "1 \<le> rttFactor r \<and> rttFactor r \<le> 2
   \<and> 1 \<le> bwFactor u \<and> bwFactor u \<le> 2
   \<and> 1 \<le> reliabilityFactor l \<and> reliabilityFactor l \<le> 2
   \<and> 1 \<le> spectrumFactor sp \<and> spectrumFactor sp \<le> 2
   \<and> (\<forall>ls. m_outgoingLinks s n = Some ls \<longrightarrow>
        calculateMultiDimensionalCostPreview ext n s
          = Inr (std_round (real (originalCost ls)
               * ((4 / 10) * rttFactor (averageRttMs ls)
                  + (3 / 10) * bwFactor (utilization (externalOf ext n))
                  + (2 / 10) * reliabilityFactor (packet_loss (externalOf ext n))
                  + (1 / 10) * spectrumFactor (spectrum_dbm (externalOf ext n)))))
        \<and> (\<exists>p. calculateMultiDimensionalCostPreview ext n s = Inr p
              \<and> real (originalCost ls) \<le> p \<and> p \<le> 2 * real (originalCost ls)))
   \<and> (m_outgoingLinks s n = None \<longrightarrow> calculateMultiDimensionalCostPreview ext n s = Inl NotFound)
   \<and> calculateMultiDimensionalCostPreview exampleExternal neighborB exampleManager = Inr 15"
proof -
  have nf: "m_outgoingLinks s n = None \<Longrightarrow> calculateMultiDimensionalCostPreview ext n s = Inl NotFound"
    by (simp add: calculateMultiDimensionalCostPreview_def)
  show ?thesis
    using factor_ranges(1) [of r] factor_ranges(2) [of u] factor_ranges(3) [of l]
      factor_ranges(4) [of sp] preview_known [of s n _ ext] nf preview_example
    by blast
qed

theorem preview_cost_range_witness:
  "map_option originalCost (m_outgoingLinks exampleManager neighborB) = Some 12
   \<and> map_option rttHistory (m_outgoingLinks exampleManager neighborB) = Some []
   \<and> calculateMultiDimensionalCostPreview exampleExternal neighborB exampleManager = Inr 15
   \<and> (\<exists>p. calculateMultiDimensionalCostPreview exampleExternal neighborB exampleManager = Inr p
          \<and> 12 \<le> p \<and> p \<le> 24)"
proof -
  let ?ls = "\<lparr>status = STATUS_ACTIVE, originalCost = 12, currentCost = 12, rttHistory = [],
              timeoutCount = 0, lastSuccess = 0, lastLsaTriggerTime = 0\<rparr>"
  have l: "m_outgoingLinks exampleManager neighborB = Some ?ls" by (simp add: example_defs)
  from preview_cost_range [of None None None None exampleManager neighborB exampleExternal] l
  have e: "calculateMultiDimensionalCostPreview exampleExternal neighborB exampleManager = Inr 15"
    and "\<exists>p. calculateMultiDimensionalCostPreview exampleExternal neighborB exampleManager = Inr p
          \<and> real (originalCost ?ls) \<le> p \<and> p \<le> 2 * real (originalCost ?ls)"
    by blast+
  then show ?thesis using l by simp
qed


end
